theory Spec2Isabelle
  imports Complex_Main "HOL-Library.AList" "HOL-Library.Sublist"
begin

section \<open>Python values\<close>

text \<open>
  The digitizer (\<^verbatim>\<open>src/manifest_digitizer.py\<close>) handles three kinds of data: text cells of
  the CSV file, JSON values exchanged with the backend, and floats for the waste quantities.
  Strings are ASCII texts (\<^typ>\<open>string\<close>). A Python float is represented by the rational
  number it denotes: \<^verbatim>\<open>float()\<close> of a decimal numeral is the numeral's exact value, the
  rounding to binary64 is not part of the model.
\<close>

datatype json =
    JNull
  | JBool bool
  | JInt int
  | JFloat rat
  | JStr string
  | JArr "json list"
  | JObj "(string \<times> json) list"

text \<open>A Python \<^verbatim>\<open>dict\<close> with string keys, in insertion order.\<close>

type_synonym dict = "(string \<times> json) list"

datatype py_error = KeyError | AttributeError | TypeError | ValueError

text \<open>Truth value of a Python object, as tested by \<^verbatim>\<open>if x\<close>, \<^verbatim>\<open>not x\<close> and \<^verbatim>\<open>x or y\<close>.\<close>

fun truthy :: "json \<Rightarrow> bool" where
  "truthy JNull = False"
| "truthy (JBool b) = b"
| "truthy (JInt n) = (n \<noteq> 0)"
| "truthy (JFloat q) = (q \<noteq> 0)"
| "truthy (JStr s) = (s \<noteq> [])"
| "truthy (JArr xs) = (xs \<noteq> [])"
| "truthy (JObj kvs) = (kvs \<noteq> [])"

text \<open>\<^verbatim>\<open>a or b\<close>: the first operand when it is truthy, the second otherwise.\<close>

definition py_or :: "json \<Rightarrow> json \<Rightarrow> json" where
  "py_or a b = (if truthy a then a else b)"

text \<open>\<^verbatim>\<open>d.get(k)\<close> on a dict: the value, or \<^verbatim>\<open>None\<close> when the key is absent.\<close>

definition dict_get :: "dict \<Rightarrow> string \<Rightarrow> json" where
  "dict_get d k = (case map_of d k of None \<Rightarrow> JNull | Some v \<Rightarrow> v)"

text \<open>
  \<^verbatim>\<open>x.get(k)\<close> on a value of unknown type (the \<^verbatim>\<open>data\<close> member of a response): only a dict
  has the method, anything else raises \<^verbatim>\<open>AttributeError\<close>.
\<close>

definition json_get :: "json \<Rightarrow> string \<Rightarrow> py_error + json" where
  "json_get j k = (case j of JObj d \<Rightarrow> Inr (dict_get d k) | _ \<Rightarrow> Inl AttributeError)"

text \<open>\<^verbatim>\<open>not x\<close> for an \<^verbatim>\<open>Optional[Dict]\<close>: \<^verbatim>\<open>None\<close> and the empty dict are falsy.\<close>

definition falsy_dict :: "dict option \<Rightarrow> bool" where
  "falsy_dict x = (case x of None \<Rightarrow> True | Some d \<Rightarrow> d = [])"

subsection \<open>Strings\<close>

definition is_digit :: "char \<Rightarrow> bool" where
  "is_digit c = (c \<in> set ''0123456789'')"

definition digit_val :: "char \<Rightarrow> nat" where
  "digit_val c = of_char c - 48"

text \<open>The characters removed by \<^verbatim>\<open>str.strip()\<close>: tab, LF, VT, FF, CR, FS, GS, RS, US, space.\<close>

definition is_space :: "char \<Rightarrow> bool" where
  "is_space c = ((of_char c :: nat) \<in> {9, 10, 11, 12, 13, 28, 29, 30, 31, 32})"

definition strip :: "string \<Rightarrow> string" where
  "strip s = rev (dropWhile is_space (rev (dropWhile is_space s)))"

definition to_lower :: "char \<Rightarrow> char" where
  "to_lower c =
     (case map_of (zip ''ABCDEFGHIJKLMNOPQRSTUVWXYZ'' ''abcdefghijklmnopqrstuvwxyz'') c of
        None \<Rightarrow> c | Some l \<Rightarrow> l)"

definition to_upper :: "char \<Rightarrow> char" where
  "to_upper c =
     (case map_of (zip ''abcdefghijklmnopqrstuvwxyz'' ''ABCDEFGHIJKLMNOPQRSTUVWXYZ'') c of
        None \<Rightarrow> c | Some u \<Rightarrow> u)"

definition lower :: "string \<Rightarrow> string" where
  "lower s = map to_lower s"

definition upper :: "string \<Rightarrow> string" where
  "upper s = map to_upper s"

text \<open>The value of a string of decimal digits, most significant digit first.\<close>

definition dec :: "string \<Rightarrow> nat" where
  "dec s = foldl (\<lambda>n c. 10 * n + digit_val c) 0 s"

subsection \<open>Cells of the data frame\<close>

text \<open>
  A cell read by \<^verbatim>\<open>pandas.read_csv\<close> from a text column is a string, or the float NaN where
  the field is empty.
\<close>

datatype cell = NaN | Text string

text \<open>\<^verbatim>\<open>str(v)\<close> of a cell; NaN prints as \<^verbatim>\<open>nan\<close>.\<close>

definition py_str :: "cell \<Rightarrow> string" where
  "py_str v = (case v of NaN \<Rightarrow> ''nan'' | Text s \<Rightarrow> s)"

text \<open>\<^verbatim>\<open>pd.isna(v)\<close> and \<^verbatim>\<open>pd.notna(v)\<close>.\<close>

definition isna :: "cell \<Rightarrow> bool" where
  "isna v = (case v of NaN \<Rightarrow> True | Text s \<Rightarrow> False)"

section \<open>Value normalisation\<close>

subsection \<open>\<^verbatim>\<open>clean_numeric_value\<close> (lines 288-302)\<close>

text \<open>
  \<^verbatim>\<open>re.search(r'(\d+(?:\.\d+)?)', s)\<close>, group 1. The search succeeds at the leftmost digit.
  There \<^verbatim>\<open>\d+\<close> is greedy and takes the whole run of digits; the optional group takes
  a dot and the run of digits after it when that run is not empty, and nothing otherwise.
\<close>

definition numeral_prefix :: "string \<Rightarrow> string" where
  "numeral_prefix t =
     (let ip = takeWhile is_digit t; r = dropWhile is_digit t in
      (case r of
         [] \<Rightarrow> ip
       | c # r' \<Rightarrow>
           if c = CHR ''.'' \<and> takeWhile is_digit r' \<noteq> []
           then ip @ ''.'' @ takeWhile is_digit r'
           else ip))"

definition re_search_numeral :: "string \<Rightarrow> string option" where
  "re_search_numeral s =
     (let t = dropWhile (\<lambda>c. \<not> is_digit c) s in
      if t = [] then None else Some (numeral_prefix t))"

text \<open>\<^verbatim>\<open>float(g)\<close> for a matched numeral \<^verbatim>\<open>g\<close>: integer part, and fraction when there is one.\<close>

definition float_of_numeral :: "string \<Rightarrow> rat" where
  "float_of_numeral g =
     (let ip = takeWhile is_digit g; fp = drop (Suc (length ip)) g in
      of_nat (dec ip) + of_nat (dec fp) / 10 ^ length fp)"

definition clean_numeric_value :: "cell \<Rightarrow> rat" where
  "clean_numeric_value value_str =
     (case value_str of
        NaN \<Rightarrow> 0
      | Text s \<Rightarrow>
          if s = [] then 0
          else (case re_search_numeral (strip s) of
                  Some g \<Rightarrow> float_of_numeral g
                | None \<Rightarrow> 0))"

subsection \<open>Shapes of text after a numeral\<close>

text \<open>Used to say where a numeral ends: the text after it does not go on with a digit, nor
  with a dot and a digit.\<close>

definition starts_with_digit :: "string \<Rightarrow> bool" where
  "starts_with_digit s = (case s of [] \<Rightarrow> False | c # _ \<Rightarrow> is_digit c)"

definition starts_with_fraction :: "string \<Rightarrow> bool" where
  "starts_with_fraction s = (case s of c # d # _ \<Rightarrow> c = CHR ''.'' \<and> is_digit d | _ \<Rightarrow> False)"

subsection \<open>\<^verbatim>\<open>format_date\<close> (lines 304-318)\<close>

text \<open>
  \<^verbatim>\<open>datetime.strptime(date_str, '%Y/%m/%d')\<close> and the same with dashes. CPython compiles
  the format into the regular expression
  \<^verbatim>\<open>(?P<Y>\d\d\d\d)/(?P<m>1[0-2]|0[1-9]|[1-9])/(?P<d>3[0-1]|[1-2]\d|0[1-9]|[1-9]| [1-9])\<close>
  and matches it at the start of the text. Each piece below lists its matches in the
  order in which the regular expression tries them, with the text left after the match;
  the first complete match is the one taken.
\<close>

definition re_year :: "string \<Rightarrow> (nat \<times> string) list" where
  "re_year s =
     (if 4 \<le> length s \<and> list_all is_digit (take 4 s) then [(dec (take 4 s), drop 4 s)] else [])"

definition re_lit :: "char \<Rightarrow> string \<Rightarrow> string list" where
  "re_lit c s = (case s of [] \<Rightarrow> [] | x # xs \<Rightarrow> if x = c then [xs] else [])"

text \<open>Two characters from the given classes, read as a number.\<close>

definition re_two :: "string \<Rightarrow> string \<Rightarrow> string \<Rightarrow> (nat \<times> string) list" where
  "re_two as bs s =
     (case s of
        a # b # r \<Rightarrow> if a \<in> set as \<and> b \<in> set bs then [(dec [a, b], r)] else []
      | _ \<Rightarrow> [])"

definition re_one :: "string \<Rightarrow> string \<Rightarrow> (nat \<times> string) list" where
  "re_one as s = (case s of a # r \<Rightarrow> if a \<in> set as then [(dec [a], r)] else [] | _ \<Rightarrow> [])"

definition re_month :: "string \<Rightarrow> (nat \<times> string) list" where
  "re_month s = re_two ''1'' ''012'' s @ re_two ''0'' ''123456789'' s @ re_one ''123456789'' s"

definition re_day :: "string \<Rightarrow> (nat \<times> string) list" where
  "re_day s =
     re_two ''3'' ''01'' s @ re_two ''12'' ''0123456789'' s @ re_two ''0'' ''123456789'' s @
     re_one ''123456789'' s @
     (case s of a # b # r \<Rightarrow> if a = CHR '' '' \<and> b \<in> set ''123456789'' then [(dec [b], r)] else []
      | _ \<Rightarrow> [])"

definition strptime_matches :: "char \<Rightarrow> string \<Rightarrow> ((nat \<times> nat \<times> nat) \<times> string) list" where
  "strptime_matches sep s =
     concat (map (\<lambda>(y, s1).
       concat (map (\<lambda>s2.
         concat (map (\<lambda>(m, s3).
           concat (map (\<lambda>s4.
             map (\<lambda>(d, s5). ((y, m, d), s5)) (re_day s4))
           (re_lit sep s3)))
         (re_month s2)))
       (re_lit sep s1)))
     (re_year s))"

definition is_leap :: "nat \<Rightarrow> bool" where
  "is_leap y = (y mod 4 = 0 \<and> (y mod 100 \<noteq> 0 \<or> y mod 400 = 0))"

definition days_in_month :: "nat \<Rightarrow> nat \<Rightarrow> nat" where
  "days_in_month y m =
     (if m = 2 then (if is_leap y then 29 else 28)
      else if m = 4 \<or> m = 6 \<or> m = 9 \<or> m = 11 then 30 else 31)"

text \<open>The dates that \<^verbatim>\<open>datetime\<close> accepts: years 1 to 9999, an existing day of the month.\<close>

definition valid_date :: "nat \<Rightarrow> nat \<Rightarrow> nat \<Rightarrow> bool" where
  "valid_date y m d =
     (1 \<le> y \<and> y \<le> 9999 \<and> 1 \<le> m \<and> m \<le> 12 \<and> 1 \<le> d \<and> d \<le> days_in_month y m)"

text \<open>
  \<^verbatim>\<open>strptime\<close> raises \<^verbatim>\<open>ValueError\<close> (here \<open>None\<close>) when the text does not match the format,
  when text remains after the match, and when the date does not exist.
\<close>

definition strptime :: "char \<Rightarrow> string \<Rightarrow> (nat \<times> nat \<times> nat) option" where
  "strptime sep s =
     (case strptime_matches sep s of
        [] \<Rightarrow> None
      | ((y, m, d), rest) # _ \<Rightarrow>
          if rest \<noteq> [] then None
          else if valid_date y m d then Some (y, m, d)
          else None)"

definition digit_char :: "nat \<Rightarrow> char" where
  "digit_char n = ''0123456789'' ! (n mod 10)"

definition pad2 :: "nat \<Rightarrow> string" where
  "pad2 n = [digit_char (n div 10), digit_char n]"

definition pad4 :: "nat \<Rightarrow> string" where
  "pad4 n = [digit_char (n div 1000), digit_char (n div 100), digit_char (n div 10), digit_char n]"

text \<open>\<^verbatim>\<open>date_obj.replace(tzinfo=timezone.utc).isoformat()\<close> for a date at midnight.\<close>

definition isoformat :: "nat \<times> nat \<times> nat \<Rightarrow> string" where
  "isoformat ymd =
     (case ymd of (y, m, d) \<Rightarrow> pad4 y @ ''-'' @ pad2 m @ ''-'' @ pad2 d @ ''T00:00:00+00:00'')"

text \<open>The body of the \<^verbatim>\<open>try\<close> block up to the parsed date (lines 308-311).\<close>

definition parse_date :: "string \<Rightarrow> (nat \<times> nat \<times> nat) option" where
  "parse_date date_str =
     (if CHR ''/'' \<in> set date_str then strptime CHR ''/'' date_str
      else strptime CHR ''-'' date_str)"

text \<open>
  \<open>now\<close> is \<^verbatim>\<open>datetime.now(timezone.utc).isoformat()\<close>, the reading of the clock that the
  \<^verbatim>\<open>except\<close> branch returns. The bare \<^verbatim>\<open>except\<close> catches every exception, so the function
  always returns a string.
\<close>

definition format_date :: "string \<Rightarrow> string \<Rightarrow> string" where
  "format_date now date_str =
     (case parse_date date_str of
        Some ymd \<Rightarrow> isoformat ymd
      | None \<Rightarrow> now)"

section \<open>The digitizer\<close>

subsection \<open>State and backend\<close>

text \<open>
  A request as handed to \<^verbatim>\<open>requests.Session\<close>: the method, the endpoint (the part of the URL
  after \<^verbatim>\<open>/api\<close>) and the JSON body of a POST.
\<close>

record request =
  req_method :: string
  req_endpoint :: string
  req_data :: "dict option"

text \<open>
  The backend is outside the program: a state machine that answers each request. Its
  answer is what \<^verbatim>\<open>_make_request\<close> returns: \<open>None\<close> when the request fails
  (\<^verbatim>\<open>RequestException\<close>, caught at line 65), and otherwise the parsed body
  \<^verbatim>\<open>response.json()\<close> of line 63, which may be any JSON value (the empty dict when the
  response has no content). The annotation \<^verbatim>\<open>Optional[Dict]\<close> is not checked.
\<close>

type_synonym 'b backend = "'b \<Rightarrow> request \<Rightarrow> json option \<times> 'b"

record run_stats =
  processed :: int
  successful :: int
  failed :: int
  skipped :: int

text \<open>A cache maps a normalised name to the entity, in insertion order (lines 37-40).\<close>

type_synonym cache = "(string \<times> dict) list"

text \<open>
  The object \<^verbatim>\<open>self\<close>. \<open>server\<close> is the state of the backend reached through the session,
  \<open>requests\<close> the requests sent so far, oldest first.
\<close>

record 'b digitizer =
  vessels_cache :: cache
  persons_cache :: cache
  waste_types_cache :: cache
  system_users_cache :: cache
  stats :: run_stats
  server :: 'b
  requests :: "request list"

text \<open>\<^verbatim>\<open>__init__\<close> (lines 31-48).\<close>

definition init :: "'b \<Rightarrow> 'b digitizer" where
  "init b =
     \<lparr>vessels_cache = [], persons_cache = [], waste_types_cache = [], system_users_cache = [],
      stats = \<lparr>processed = 0, successful = 0, failed = 0, skipped = 0\<rparr>,
      server = b, requests = []\<rparr>"

subsection \<open>\<^verbatim>\<open>_make_request\<close> (lines 50-69)\<close>

definition send :: "'b backend \<Rightarrow> request \<Rightarrow> 'b digitizer \<Rightarrow> json option \<times> 'b digitizer" where
  "send backend rq self =
     (case backend (server self) rq of
        (response, b) \<Rightarrow> (response, self\<lparr>server := b, requests := requests self @ [rq]\<rparr>))"

text \<open>A method other than GET and POST raises \<^verbatim>\<open>ValueError\<close>, which line 65 does not catch.\<close>

definition make_request ::
  "'b backend \<Rightarrow> string \<Rightarrow> string \<Rightarrow> dict option \<Rightarrow> 'b digitizer \<Rightarrow>
     (py_error + json option) \<times> 'b digitizer" where
  "make_request backend meth endpoint data self =
     (if upper meth = ''GET'' then
        (case send backend \<lparr>req_method = ''GET'', req_endpoint = endpoint, req_data = None\<rparr> self of
           (response, self') \<Rightarrow> (Inr response, self'))
      else if upper meth = ''POST'' then
        (case send backend \<lparr>req_method = ''POST'', req_endpoint = endpoint, req_data = data\<rparr> self of
           (response, self') \<Rightarrow> (Inr response, self'))
      else (Inl ValueError, self))"

text \<open>
  \<^verbatim>\<open>response and response.get('success')\<close>, as a truth value. \<^verbatim>\<open>None\<close> and a falsy body end
  the conjunction at once; on a truthy body that is not a dict \<^verbatim>\<open>.get\<close> raises
  \<^verbatim>\<open>AttributeError\<close>.
\<close>

definition response_ok :: "json option \<Rightarrow> py_error + bool" where
  "response_ok response =
     (case response of
        None \<Rightarrow> Inr False
      | Some r \<Rightarrow>
          if \<not> truthy r then Inr False
          else (case json_get r ''success'' of
                  Inl e \<Rightarrow> Inl e
                | Inr success \<Rightarrow> Inr (truthy success)))"

subsection \<open>\<^verbatim>\<open>load_entities_cache\<close> (lines 71-104)\<close>

text \<open>
  The loop \<^verbatim>\<open>for e in response['data']: cache[e[key].lower().strip()] = e\<close>. The subscript
  raises \<^verbatim>\<open>TypeError\<close> on an element that is not a dict and \<^verbatim>\<open>KeyError\<close> when the key is
  missing; \<^verbatim>\<open>.lower()\<close> raises \<^verbatim>\<open>AttributeError\<close> on a name that is not a string. The
  entries stored before the exception stay in the cache.
\<close>

fun load_entries :: "string \<Rightarrow> json list \<Rightarrow> cache \<Rightarrow> py_error option \<times> cache" where
  "load_entries key [] c = (None, c)"
| "load_entries key (e # es) c =
     (case e of
        JObj d \<Rightarrow>
          (case map_of d key of
             None \<Rightarrow> (Some KeyError, c)
           | Some (JStr name) \<Rightarrow> load_entries key es (AList.update (strip (lower name)) d c)
           | Some _ \<Rightarrow> (Some AttributeError, c))
      | _ \<Rightarrow> (Some TypeError, c))"

text \<open>
  \<^verbatim>\<open>if response and response.get('data'): for e in response['data']: ...\<close>. On a truthy
  body that is not a dict \<^verbatim>\<open>.get\<close> raises \<^verbatim>\<open>AttributeError\<close>. A truthy \<^verbatim>\<open>data\<close> that is not
  a list raises \<^verbatim>\<open>TypeError\<close>: a number is not iterable, and the elements of a string or
  of a dict (its keys) are strings, which have no string subscript.
\<close>

definition load_cache :: "string \<Rightarrow> json option \<Rightarrow> cache \<Rightarrow> py_error option \<times> cache" where
  "load_cache key response c =
     (case response of
        None \<Rightarrow> (None, c)
      | Some r \<Rightarrow>
          if \<not> truthy r then (None, c)
          else
            (case json_get r ''data'' of
               Inl e \<Rightarrow> (Some e, c)
             | Inr data \<Rightarrow>
                 if \<not> truthy data then (None, c)
                 else (case data of
                         JArr es \<Rightarrow> load_entries key es c
                       | _ \<Rightarrow> (Some TypeError, c))))"

definition load_entities_cache :: "'b backend \<Rightarrow> 'b digitizer \<Rightarrow> py_error option \<times> 'b digitizer" where
  "load_entities_cache backend self =
     (case make_request backend ''GET'' ''/vessels/0/1000'' None self of
        (Inl e, s1) \<Rightarrow> (Some e, s1)
      | (Inr vessels_response, s1) \<Rightarrow>
     (case load_cache ''VesselName'' vessels_response (vessels_cache s1) of
        (Some e, c) \<Rightarrow> (Some e, s1\<lparr>vessels_cache := c\<rparr>)
      | (None, c) \<Rightarrow>
     (case make_request backend ''GET'' ''/persons/0/5000'' None (s1\<lparr>vessels_cache := c\<rparr>) of
        (Inl e, s2) \<Rightarrow> (Some e, s2)
      | (Inr persons_response, s2) \<Rightarrow>
     (case load_cache ''Name'' persons_response (persons_cache s2) of
        (Some e, c) \<Rightarrow> (Some e, s2\<lparr>persons_cache := c\<rparr>)
      | (None, c) \<Rightarrow>
     (case make_request backend ''GET'' ''/wasteTypes/0/100'' None (s2\<lparr>persons_cache := c\<rparr>) of
        (Inl e, s3) \<Rightarrow> (Some e, s3)
      | (Inr waste_types_response, s3) \<Rightarrow>
     (case load_cache ''typeName'' waste_types_response (waste_types_cache s3) of
        (Some e, c) \<Rightarrow> (Some e, s3\<lparr>waste_types_cache := c\<rparr>)
      | (None, c) \<Rightarrow>
     (case make_request backend ''GET'' ''/systemUsers/0/100'' None (s3\<lparr>waste_types_cache := c\<rparr>) of
        (Inl e, s4) \<Rightarrow> (Some e, s4)
      | (Inr system_users_response, s4) \<Rightarrow>
     (case load_cache ''FullName'' system_users_response (system_users_cache s4) of
        (Some e, c) \<Rightarrow> (Some e, s4\<lparr>system_users_cache := c\<rparr>)
      | (None, c) \<Rightarrow> (None, s4\<lparr>system_users_cache := c\<rparr>)))))))))"

subsection \<open>Lookups (lines 106-143)\<close>

definition find_or_create_vessel :: "'b digitizer \<Rightarrow> string \<Rightarrow> dict option" where
  "find_or_create_vessel self vessel_name = map_of (vessels_cache self) (strip (lower vessel_name))"

definition find_or_create_person :: "'b digitizer \<Rightarrow> string \<Rightarrow> string \<Rightarrow> dict option" where
  "find_or_create_person self person_name person_type =
     (if person_name = [] \<or> strip person_name = [] then None
      else map_of (persons_cache self) (strip (lower person_name)))"

definition get_waste_type_by_name :: "'b digitizer \<Rightarrow> string \<Rightarrow> dict option" where
  "get_waste_type_by_name self waste_type_name =
     map_of (waste_types_cache self) (strip (lower waste_type_name))"

definition get_default_inspector :: "'b digitizer \<Rightarrow> dict" where
  "get_default_inspector self =
     (case system_users_cache self of
        [] \<Rightarrow> [(''ID'', JInt 1), (''FullName'', JStr ''Default Inspector'')]
      | (name, user) # _ \<Rightarrow> user)"

subsection \<open>\<^verbatim>\<open>create_compliance_manifest\<close> (lines 145-286)\<close>

record manifest_data =
  vessel_name :: string
  inspection_date :: string
  oil_used :: rat
  oil_filters_used :: rat
  diesel_filters_used :: rat
  junk_reported :: rat
  captain_name :: string
  chef_name :: string
  observations :: string

text \<open>
  \<^verbatim>\<open>x.get('ID') or x.get('id')\<close> on a cached entity or a created person: the expression of
  lines 161, 165, 176, 180, 215, 232, 249, 267 and 488.
\<close>

definition entity_id :: "dict \<Rightarrow> json" where
  "entity_id x = py_or (dict_get x ''ID'') (dict_get x ''id'')"

text \<open>
  \<^verbatim>\<open>compliance.get('id') or compliance.get('ID')\<close> (lines 199 and 202), on the \<^verbatim>\<open>data\<close> member
  of the response, which may be any JSON value.
\<close>

definition compliance_id_of :: "json \<Rightarrow> py_error + json" where
  "compliance_id_of compliance =
     (case json_get compliance ''id'' of
        Inl e \<Rightarrow> Inl e
      | Inr a \<Rightarrow> if truthy a then Inr a else json_get compliance ''ID'')"

text \<open>One of the two blocks of lines 160-167: the identifier of a signer that was found.\<close>

definition signer_id :: "dict option \<Rightarrow> json list" where
  "signer_id person =
     (case person of
        None \<Rightarrow> []
      | Some p \<Rightarrow>
          if p = [] then []
          else (let person_id = entity_id p in if truthy person_id then [person_id] else []))"

text \<open>Lines 159-172: the signers of the manifest, with the default signer 1 when none is found.\<close>

definition collect_signers :: "dict option \<Rightarrow> dict option \<Rightarrow> json list" where
  "collect_signers captain chef =
     (let signers_ids = signer_id captain @ signer_id chef in
      if signers_ids = [] then [JInt 1] else signers_ids)"

text \<open>Lines 155-185: the body of the compliance request.\<close>

definition compliance_data :: "'b digitizer \<Rightarrow> manifest_data \<Rightarrow> dict \<Rightarrow> dict" where
  "compliance_data self md vessel =
     (let captain = find_or_create_person self (captain_name md) ''Captain'';
          chef = find_or_create_person self (chef_name md) ''Chef'';
          signers_ids = collect_signers captain chef;
          inspector = get_default_inspector self;
          inspector_id = entity_id inspector
      in [(''vesselId'', entity_id vessel),
          (''inspectionDate'', JStr (inspection_date md)),
          (''observations'', JStr (observations md)),
          (''systemUserId'', inspector_id),
          (''signersIds'', JArr signers_ids)])"

text \<open>The body of a waste request (lines 214-220, 231-237, 248-254, 266-272).\<close>

definition waste_data :: "manifest_data \<Rightarrow> dict \<Rightarrow> dict \<Rightarrow> rat \<Rightarrow> json \<Rightarrow> dict" where
  "waste_data md vessel waste_type quantity compliance_id =
     [(''vesselId'', entity_id vessel),
      (''wasteTypeId'', dict_get waste_type ''id''),
      (''quantityGenerated'', JFloat quantity),
      (''generationDate'', JStr (inspection_date md)),
      (''complianceId'', compliance_id)]"

text \<open>
  One of the four blocks of lines 210-277, for the quantity and the waste type name of the
  block; \<open>created\<close> is \<^verbatim>\<open>waste_records_created\<close>. An exception leaves the block with the
  state reached.
\<close>

definition create_waste ::
  "'b backend \<Rightarrow> manifest_data \<Rightarrow> dict \<Rightarrow> json \<Rightarrow> rat \<Rightarrow> string \<Rightarrow> int \<Rightarrow> 'b digitizer \<Rightarrow>
     (py_error + int) \<times> 'b digitizer" where
  "create_waste backend md vessel compliance_id quantity type_name created self =
     (if quantity > 0 then
        (case get_waste_type_by_name self type_name of
           None \<Rightarrow> (Inr created, self)
         | Some waste_type \<Rightarrow>
             if waste_type = [] then (Inr created, self)
             else
               (case make_request backend ''POST'' ''/wastes''
                       (Some (waste_data md vessel waste_type quantity compliance_id)) self of
                  (Inl e, self') \<Rightarrow> (Inl e, self')
                | (Inr waste_response, self') \<Rightarrow>
                    (case response_ok waste_response of
                       Inl e \<Rightarrow> (Inl e, self')
                     | Inr ok \<Rightarrow> (Inr (if ok then created + 1 else created), self'))))
      else (Inr created, self))"

text \<open>Lines 207-277: the four blocks in order; an exception skips the blocks after it.\<close>

definition create_wastes ::
  "'b backend \<Rightarrow> manifest_data \<Rightarrow> dict \<Rightarrow> json \<Rightarrow> 'b digitizer \<Rightarrow> (py_error + int) \<times> 'b digitizer" where
  "create_wastes backend md vessel compliance_id self =
     (case create_waste backend md vessel compliance_id (oil_used md) ''Aceite'' 0 self of
        (Inl e, s1) \<Rightarrow> (Inl e, s1)
      | (Inr n1, s1) \<Rightarrow>
     (case create_waste backend md vessel compliance_id (oil_filters_used md) ''Filtros de Aceite'' n1 s1 of
        (Inl e, s2) \<Rightarrow> (Inl e, s2)
      | (Inr n2, s2) \<Rightarrow>
     (case create_waste backend md vessel compliance_id (diesel_filters_used md) ''Filtros Diesel'' n2 s2 of
        (Inl e, s3) \<Rightarrow> (Inl e, s3)
      | (Inr n3, s3) \<Rightarrow>
        create_waste backend md vessel compliance_id (junk_reported md) ''Desechos Solidos'' n3 s3)))"

text \<open>
  The whole function. Every exception is caught at line 282 and turns into the result
  \<^verbatim>\<open>False\<close>; the requests sent before it stay sent.
\<close>

definition create_compliance_manifest ::
  "'b backend \<Rightarrow> manifest_data \<Rightarrow> 'b digitizer \<Rightarrow> bool \<times> 'b digitizer" where
  "create_compliance_manifest backend md self =
     (case find_or_create_vessel self (vessel_name md) of
        None \<Rightarrow> (False, self)
      | Some vessel \<Rightarrow>
          if vessel = [] then (False, self)
          else
            (case make_request backend ''POST'' ''/compliances''
                    (Some (compliance_data self md vessel)) self of
               (Inl e, s1) \<Rightarrow> (False, s1)
             | (Inr compliance_response, s1) \<Rightarrow>
             (case response_ok compliance_response of
                Inl e \<Rightarrow> (False, s1)
              | Inr ok \<Rightarrow>
                  if \<not> ok then (False, s1)
                  else
             (case compliance_response of
                None \<Rightarrow> (False, s1)
              | Some r \<Rightarrow>
             (case json_get r ''data'' of
                Inl e \<Rightarrow> (False, s1)
              | Inr compliance \<Rightarrow>
                  if \<not> truthy compliance then (False, s1)
                  else
             (case compliance_id_of compliance of
                Inl e \<Rightarrow> (False, s1)
              | Inr compliance_id \<Rightarrow>
                  if \<not> truthy compliance_id then (False, s1)
                  else
             (case create_wastes backend md vessel compliance_id s1 of
                (Inl e, s2) \<Rightarrow> (False, s2)
              | (Inr waste_records_created, s2) \<Rightarrow> (True, s2))))))))"

subsection \<open>\<^verbatim>\<open>process_raw_data\<close> (lines 320-397)\<close>

text \<open>A row of the data frame: the cells by column name. A missing column raises \<^verbatim>\<open>KeyError\<close>.\<close>

type_synonym row = "(string \<times> cell) list"

definition row_get :: "row \<Rightarrow> string \<Rightarrow> py_error + cell" where
  "row_get r column = (case map_of r column of None \<Rightarrow> Inl KeyError | Some v \<Rightarrow> Inr v)"

definition bind_err :: "py_error + 'a \<Rightarrow> ('a \<Rightarrow> py_error + 'c) \<Rightarrow> py_error + 'c" where
  "bind_err x f = (case x of Inl e \<Rightarrow> Inl e | Inr v \<Rightarrow> f v)"

text \<open>Lines 351-361. \<open>now\<close> is the reading of the clock that \<^verbatim>\<open>format_date\<close> falls back to.\<close>

definition parse_row :: "string \<Rightarrow> row \<Rightarrow> py_error + manifest_data" where
  "parse_row now r =
     bind_err (row_get r ''Vessel Name'') (\<lambda>vessel.
     bind_err (row_get r ''Date'') (\<lambda>date.
     bind_err (row_get r ''Oil Used'') (\<lambda>oil.
     bind_err (row_get r ''Oil Filters Used'') (\<lambda>oil_filters.
     bind_err (row_get r ''Diesel Filters Used'') (\<lambda>diesel_filters.
     bind_err (row_get r ''Junk Reported'') (\<lambda>junk.
     bind_err (row_get r ''Captain Full Name'') (\<lambda>captain.
     bind_err (row_get r ''Chef Full Name'') (\<lambda>chef.
     bind_err (row_get r ''ID'') (\<lambda>ident.
       Inr \<lparr>vessel_name = strip (py_str vessel),
            inspection_date = format_date now (py_str date),
            oil_used = clean_numeric_value oil,
            oil_filters_used = clean_numeric_value oil_filters,
            diesel_filters_used = clean_numeric_value diesel_filters,
            junk_reported = clean_numeric_value junk,
            captain_name = (if \<not> isna captain then strip (py_str captain) else ''''),
            chef_name = (if \<not> isna chef then strip (py_str chef) else ''''),
            observations = ''Digitized from physical manifest ID: '' @ py_str ident\<rparr>)))))))))"

definition count_processed :: "'b digitizer \<Rightarrow> 'b digitizer" where
  "count_processed self = self\<lparr>stats := (stats self)\<lparr>processed := processed (stats self) + 1\<rparr>\<rparr>"

definition count_successful :: "'b digitizer \<Rightarrow> 'b digitizer" where
  "count_successful self = self\<lparr>stats := (stats self)\<lparr>successful := successful (stats self) + 1\<rparr>\<rparr>"

definition count_failed :: "'b digitizer \<Rightarrow> 'b digitizer" where
  "count_failed self = self\<lparr>stats := (stats self)\<lparr>failed := failed (stats self) + 1\<rparr>\<rparr>"

definition count_skipped :: "'b digitizer \<Rightarrow> 'b digitizer" where
  "count_skipped self = self\<lparr>stats := (stats self)\<lparr>skipped := skipped (stats self) + 1\<rparr>\<rparr>"

text \<open>The body of the loop (lines 347-391) for one row.\<close>

definition process_row :: "'b backend \<Rightarrow> string \<Rightarrow> row \<Rightarrow> 'b digitizer \<Rightarrow> 'b digitizer" where
  "process_row backend now r self0 =
     (let self = count_processed self0 in
      case parse_row now r of
        Inl e \<Rightarrow> count_failed self
      | Inr md \<Rightarrow>
          (let total_waste =
                 oil_used md + oil_filters_used md + diesel_filters_used md + junk_reported md
           in if total_waste = 0 then count_skipped self
              else
                (case create_compliance_manifest backend md self of
                   (success, self') \<Rightarrow>
                     if success then count_successful self' else count_failed self')))"

text \<open>The loop of line 346; each row comes with the reading of the clock during its turn.\<close>

fun process_rows :: "'b backend \<Rightarrow> (string \<times> row) list \<Rightarrow> 'b digitizer \<Rightarrow> 'b digitizer" where
  "process_rows backend [] self = self"
| "process_rows backend ((now, r) # rest) self =
     process_rows backend rest (process_row backend now r self)"

text \<open>
  The whole function. \<open>frame\<close> is the outcome of lines 325-338, which are calls into pandas:
  the rows left after reading, cleaning and slicing the file, or the exception raised
  there. Any exception outside the loop ends the function at line 395 with the statistics
  as they are.
\<close>

definition process_raw_data ::
  "'b backend \<Rightarrow> py_error + (string \<times> row) list \<Rightarrow> 'b digitizer \<Rightarrow> run_stats \<times> 'b digitizer" where
  "process_raw_data backend frame self =
     (case frame of
        Inl e \<Rightarrow> (stats self, self)
      | Inr rows \<Rightarrow>
          (case load_entities_cache backend self of
             (Some e, s1) \<Rightarrow> (stats s1, s1)
           | (None, s1) \<Rightarrow>
               (let s2 = process_rows backend rows s1 in (stats s2, s2))))"

subsection \<open>\<^verbatim>\<open>create_person_batch\<close> and \<^verbatim>\<open>create_vessel_batch\<close> (lines 399-433)\<close>

definition person_data :: "string \<Rightarrow> int \<Rightarrow> string \<Rightarrow> dict" where
  "person_data name person_type_id contact_info =
     [(''name'', JStr name), (''personTypeId'', JInt person_type_id),
      (''contactInfo'', JStr contact_info)]"

definition vessel_data :: "string \<Rightarrow> string \<Rightarrow> json \<Rightarrow> dict" where
  "vessel_data name vessel_type owner_id =
     [(''vesselName'', JStr name), (''vesselType'', JStr vessel_type),
      (''ownerId'', owner_id)]"

text \<open>
  Lines 408-415 and 426-433, the same in both functions: on success the \<^verbatim>\<open>data\<close> member is
  returned. Before that its identifier is read for the log line
  (\<^verbatim>\<open>person.get('ID') or person.get('id')\<close>), which raises \<^verbatim>\<open>AttributeError\<close> when \<^verbatim>\<open>data\<close> is
  not a dict (\<^verbatim>\<open>None\<close> when it is missing); nothing in these functions catches it, nor the
  exception of \<^verbatim>\<open>response.get\<close> on a body that is not a dict.
\<close>

definition created_entity :: "json option \<Rightarrow> py_error + dict option" where
  "created_entity response =
     (case response_ok response of
        Inl e \<Rightarrow> Inl e
      | Inr ok \<Rightarrow>
          if ok then
            (case response of
               None \<Rightarrow> Inr None
             | Some r \<Rightarrow>
                 (case json_get r ''data'' of
                    Inl e \<Rightarrow> Inl e
                  | Inr (JObj entity) \<Rightarrow> Inr (Some entity)
                  | Inr _ \<Rightarrow> Inl AttributeError))
          else Inr None)"

definition create_person_batch ::
  "'b backend \<Rightarrow> string \<Rightarrow> int \<Rightarrow> string \<Rightarrow> 'b digitizer \<Rightarrow>
     (py_error + dict option) \<times> 'b digitizer" where
  "create_person_batch backend name person_type_id contact_info self =
     (case make_request backend ''POST'' ''/persons''
             (Some (person_data name person_type_id contact_info)) self of
        (Inl e, s1) \<Rightarrow> (Inl e, s1)
      | (Inr response, s1) \<Rightarrow> (created_entity response, s1))"

definition create_vessel_batch ::
  "'b backend \<Rightarrow> string \<Rightarrow> string \<Rightarrow> json \<Rightarrow> 'b digitizer \<Rightarrow>
     (py_error + dict option) \<times> 'b digitizer" where
  "create_vessel_batch backend name vessel_type owner_id self =
     (case make_request backend ''POST'' ''/vessels''
             (Some (vessel_data name vessel_type owner_id)) self of
        (Inl e, s1) \<Rightarrow> (Inl e, s1)
      | (Inr response, s1) \<Rightarrow> (created_entity response, s1))"

subsection \<open>\<^verbatim>\<open>setup_base_entities\<close> (lines 435-527)\<close>

text \<open>\<^verbatim>\<open>if name and name != 'nan'\<close> (lines 470-475).\<close>

definition wanted :: "string \<Rightarrow> bool" where
  "wanted name = (name \<noteq> [] \<and> name \<noteq> ''nan'')"

text \<open>
  The loop of lines 465-475. The three accumulators hold the names added to
  \<^verbatim>\<open>unique_vessels\<close>, \<^verbatim>\<open>unique_captains\<close> and \<^verbatim>\<open>unique_chefs\<close>, in the order of the calls of
  \<^verbatim>\<open>add\<close>; a missing column raises \<^verbatim>\<open>KeyError\<close>.
\<close>

fun unique_entities ::
  "row list \<Rightarrow> string list \<times> string list \<times> string list \<Rightarrow>
     py_error + (string list \<times> string list \<times> string list)" where
  "unique_entities [] acc = Inr acc"
| "unique_entities (r # rs) (vessels, captains, chefs) =
     (case row_get r ''Vessel Name'' of
        Inl e \<Rightarrow> Inl e
      | Inr v \<Rightarrow>
     (case row_get r ''Captain Full Name'' of
        Inl e \<Rightarrow> Inl e
      | Inr c \<Rightarrow>
     (case row_get r ''Chef Full Name'' of
        Inl e \<Rightarrow> Inl e
      | Inr h \<Rightarrow>
          (let vessel = strip (py_str v);
               captain = strip (py_str c);
               chef = strip (py_str h)
           in unique_entities rs
                (if wanted vessel then vessels @ [vessel] else vessels,
                 if wanted captain then captains @ [captain] else captains,
                 if wanted chef then chefs @ [chef] else chefs)))))"

text \<open>
  The loops of lines 493-495 and 500-502 over the names in the order given; \<open>created\<close>
  counts the calls that returned a non-empty entity. An exception ends the loop.
\<close>

fun create_persons ::
  "'b backend \<Rightarrow> int \<Rightarrow> string \<Rightarrow> string list \<Rightarrow> int \<Rightarrow> 'b digitizer \<Rightarrow>
     (py_error + int) \<times> 'b digitizer" where
  "create_persons backend person_type_id contact_info [] created self = (Inr created, self)"
| "create_persons backend person_type_id contact_info (name # names) created self =
     (case create_person_batch backend name person_type_id contact_info self of
        (Inl e, s1) \<Rightarrow> (Inl e, s1)
      | (Inr person, s1) \<Rightarrow>
          create_persons backend person_type_id contact_info names
            (if falsy_dict person then created else created + 1) s1)"

text \<open>The loop of lines 507-509.\<close>

fun create_vessels ::
  "'b backend \<Rightarrow> string \<Rightarrow> json \<Rightarrow> string list \<Rightarrow> int \<Rightarrow> 'b digitizer \<Rightarrow>
     (py_error + int) \<times> 'b digitizer" where
  "create_vessels backend vessel_type owner_id [] created self = (Inr created, self)"
| "create_vessels backend vessel_type owner_id (name # names) created self =
     (case create_vessel_batch backend name vessel_type owner_id self of
        (Inl e, s1) \<Rightarrow> (Inl e, s1)
      | (Inr vessel, s1) \<Rightarrow>
          create_vessels backend vessel_type owner_id names
            (if falsy_dict vessel then created else created + 1) s1)"

text \<open>
  The result of the function: the dict with the key \<^verbatim>\<open>error\<close>, or the numbers of captains,
  chefs and vessels created (the other members of the dict are computed from these).
\<close>

datatype setup_result = Setup_error | Setup_done int int int

text \<open>
  \<open>frame\<close> is the outcome of lines 442-450 (pandas): the rows left after cleaning, or the
  exception raised there. \<open>set_iter\<close> gives the order in which Python iterates over the
  set built by adding the given names; the program does not control it. The person type
  codes are those of lines 455-457. Every exception is caught at line 525.
\<close>

definition setup_base_entities ::
  "'b backend \<Rightarrow> (string list \<Rightarrow> string list) \<Rightarrow> py_error + row list \<Rightarrow> 'b digitizer \<Rightarrow>
     setup_result \<times> 'b digitizer" where
  "setup_base_entities backend set_iter frame self =
     (case frame of
        Inl e \<Rightarrow> (Setup_error, self)
      | Inr rows \<Rightarrow>
     (case unique_entities rows ([], [], []) of
        Inl e \<Rightarrow> (Setup_error, self)
      | Inr (unique_vessels, unique_captains, unique_chefs) \<Rightarrow>
     (case create_person_batch backend ''Unknown Owner'' 3 ''Default vessel owner'' self of
        (Inl e, s1) \<Rightarrow> (Setup_error, s1)
      | (Inr unknown_owner, s1) \<Rightarrow>
     (case unknown_owner of
        None \<Rightarrow> (Setup_error, s1)
      | Some owner \<Rightarrow>
          if owner = [] then (Setup_error, s1)
          else
     (case create_persons backend 2 ''Captain'' (set_iter unique_captains) 0 s1 of
        (Inl e, s2) \<Rightarrow> (Setup_error, s2)
      | (Inr created_captains, s2) \<Rightarrow>
     (case create_persons backend 1 ''Chef'' (set_iter unique_chefs) 0 s2 of
        (Inl e, s3) \<Rightarrow> (Setup_error, s3)
      | (Inr created_chefs, s3) \<Rightarrow>
     (case create_vessels backend ''Boat'' (entity_id owner) (set_iter unique_vessels) 0 s3 of
        (Inl e, s4) \<Rightarrow> (Setup_error, s4)
      | (Inr created_vessels, s4) \<Rightarrow>
          (Setup_done created_captains created_chefs created_vessels, s4))))))))"

section \<open>Vocabulary of the properties\<close>

text \<open>The requests of the two kinds that a row can cause.\<close>

definition post :: "string \<Rightarrow> dict \<Rightarrow> request" where
  "post endpoint body = \<lparr>req_method = ''POST'', req_endpoint = endpoint, req_data = Some body\<rparr>"

definition is_compliance_request :: "request \<Rightarrow> bool" where
  "is_compliance_request rq = (req_method rq = ''POST'' \<and> req_endpoint rq = ''/compliances'')"

definition is_waste_request :: "request \<Rightarrow> bool" where
  "is_waste_request rq = (req_method rq = ''POST'' \<and> req_endpoint rq = ''/wastes'')"

text \<open>
  The compliance creation succeeded: there is a response, it has a truthy success
  indicator, and a truthy compliance identifier is found in its \<^verbatim>\<open>data\<close>.
\<close>

definition compliance_created :: "json option \<Rightarrow> bool" where
  "compliance_created response =
     (response_ok response = Inr True \<and>
      (case response of
         None \<Rightarrow> False
       | Some r \<Rightarrow>
           (case json_get r ''data'' of
              Inl e \<Rightarrow> False
            | Inr compliance \<Rightarrow>
                (case compliance_id_of compliance of
                   Inl e \<Rightarrow> False
                 | Inr compliance_id \<Rightarrow> truthy compliance_id))))"

text \<open>
  A response whose success indicator can be read: no response, a falsy body, or a JSON
  object (a dict), whatever it holds.
\<close>

definition object_or_absent :: "json option \<Rightarrow> bool" where
  "object_or_absent response = (case response_ok response of Inl e \<Rightarrow> False | Inr ok \<Rightarrow> True)"

text \<open>A signer resolves to a cached person that has an identifier.\<close>

definition has_identifier :: "dict option \<Rightarrow> bool" where
  "has_identifier person = (case person of None \<Rightarrow> False | Some p \<Rightarrow> truthy (entity_id p))"

text \<open>The counters of a run add up.\<close>

definition counters_add_up :: "run_stats \<Rightarrow> bool" where
  "counters_add_up st = (processed st = successful st + failed st + skipped st)"

text \<open>The requests sent between two states of the digitizer.\<close>

definition sent_since :: "'b digitizer \<Rightarrow> 'b digitizer \<Rightarrow> request list" where
  "sent_since before after = drop (length (requests before)) (requests after)"

text \<open>
  The requests that one row may cause, in the order sent: none, or one compliance request
  followed by at most four waste requests, and by none when the compliance creation did
  not succeed. \<open>b\<close> is the state of the backend when the row starts.
\<close>

definition compliance_first :: "'b backend \<Rightarrow> 'b \<Rightarrow> request list \<Rightarrow> bool" where
  "compliance_first backend b new =
     (case new of
        [] \<Rightarrow> True
      | c # ws \<Rightarrow>
          is_compliance_request c \<and> list_all is_waste_request ws \<and> length ws \<le> 4 \<and>
          (\<not> compliance_created (fst (backend b c)) \<longrightarrow> ws = []))"

text \<open>No waste is reported: the manifest data of the row is built and its four quantities add up to zero (line 367).\<close>

definition no_waste_reported :: "string \<Rightarrow> row \<Rightarrow> bool" where
  "no_waste_reported now r =
     (case parse_row now r of
        Inl e \<Rightarrow> False
      | Inr md \<Rightarrow> oil_used md + oil_filters_used md + diesel_filters_used md + junk_reported md = 0)"

text \<open>
  The requests of the bootstrap pass: the one that creates the owner, and after it those
  for the captains, the chefs and the vessels, for the order \<open>set_iter\<close> in which the three
  sets are iterated.
\<close>

definition owner_request :: request where
  "owner_request = post ''/persons'' (person_data ''Unknown Owner'' 3 ''Default vessel owner'')"

definition bootstrap_requests ::
  "(string list \<Rightarrow> string list) \<Rightarrow> json \<Rightarrow> string list \<Rightarrow> string list \<Rightarrow> string list \<Rightarrow>
     request list" where
  "bootstrap_requests set_iter owner_id vessels captains chefs =
     map (\<lambda>name. post ''/persons'' (person_data name 2 ''Captain'')) (set_iter captains) @
     map (\<lambda>name. post ''/persons'' (person_data name 1 ''Chef'')) (set_iter chefs) @
     map (\<lambda>name. post ''/vessels'' (vessel_data name ''Boat'' owner_id)) (set_iter vessels)"

text \<open>
  The owner that a response to the owner request creates, if any: the creation fails when
  there is no response, no success indicator, no entity in \<^verbatim>\<open>data\<close>, or an empty one.
\<close>

definition owner_created :: "json option \<Rightarrow> dict option" where
  "owner_created response =
     (case created_entity response of
        Inl e \<Rightarrow> None
      | Inr None \<Rightarrow> None
      | Inr (Some owner) \<Rightarrow> if owner = [] then None else Some owner)"

text \<open>
  A response to a creation is a failure that the program reports by returning \<^verbatim>\<open>None\<close> (no
  response, a falsy body, or a dict without a truthy success indicator) or carries the
  created entity: it neither announces a success without a dict in \<^verbatim>\<open>data\<close> nor is a
  truthy body other than a dict.
\<close>

definition entity_or_failure :: "json option \<Rightarrow> bool" where
  "entity_or_failure response = (case created_entity response of Inl e \<Rightarrow> False | Inr x \<Rightarrow> True)"


section \<open>An example run\<close>

text \<open>
  A backend that numbers the requests it receives, creates every compliance with the
  identifier 42 and fails every other request; and a backend that fails every request.
\<close>

definition ex_backend :: "nat backend" where
  "ex_backend n rq =
     (if req_endpoint rq = ''/compliances''
      then (Some (JObj [(''success'', JBool True), (''data'', JObj [(''id'', JInt 42)])]), n + 1)
      else (None, n + 1))"

definition down_backend :: "nat backend" where
  "down_backend n rq = (None, n + 1)"

text \<open>A digitizer whose caches hold one vessel, one person and one waste type.\<close>

definition ex_self :: "nat digitizer" where
  "ex_self = (init 0)\<lparr>
     vessels_cache :=
       [(''atlantic star'', [(''ID'', JInt 3), (''VesselName'', JStr ''Atlantic Star'')])],
     persons_cache :=
       [(''john doe'', [(''ID'', JInt 9), (''Name'', JStr ''John Doe'')])],
     waste_types_cache :=
       [(''aceite'', [(''id'', JInt 5), (''typeName'', JStr ''Aceite'')])]\<rparr>"

text \<open>A row with 50 litres of oil, a row of the same vessel without waste, and rows of a
  vessel that is not in the cache.\<close>

definition ex_row :: row where
  "ex_row =
     [(''ID'', Text ''7''), (''Vessel Name'', Text ''Atlantic Star''), (''Date'', Text ''2024/01/10''),
      (''Oil Used'', Text ''50 litros''), (''Oil Filters Used'', Text ''0''),
      (''Diesel Filters Used'', Text ''0''), (''Junk Reported'', Text ''0''),
      (''Captain Full Name'', Text ''John Doe''), (''Chef Full Name'', NaN)]"

definition idle_row :: row where
  "idle_row =
     [(''ID'', Text ''8''), (''Vessel Name'', Text ''Atlantic Star''), (''Date'', Text ''2024/01/11''),
      (''Oil Used'', Text ''0''), (''Oil Filters Used'', NaN),
      (''Diesel Filters Used'', Text ''0''), (''Junk Reported'', Text ''n/a''),
      (''Captain Full Name'', Text ''John Doe''), (''Chef Full Name'', NaN)]"

definition ghost_row :: row where
  "ghost_row =
     [(''ID'', Text ''9''), (''Vessel Name'', Text ''Ghost''), (''Date'', Text ''2024/01/12''),
      (''Oil Used'', Text ''12.5 litros''), (''Oil Filters Used'', Text ''0''),
      (''Diesel Filters Used'', Text ''0''), (''Junk Reported'', Text ''0''),
      (''Captain Full Name'', NaN), (''Chef Full Name'', NaN)]"

definition idle_ghost_row :: row where
  "idle_ghost_row =
     [(''ID'', Text ''10''), (''Vessel Name'', Text ''Ghost''), (''Date'', Text ''2024/01/13''),
      (''Oil Used'', Text ''0''), (''Oil Filters Used'', Text ''0''),
      (''Diesel Filters Used'', Text ''0''), (''Junk Reported'', Text ''0''),
      (''Captain Full Name'', NaN), (''Chef Full Name'', NaN)]"

text \<open>A row of a file that has no column \<^verbatim>\<open>Date\<close>.\<close>

definition broken_row :: row where
  "broken_row = [(''ID'', Text ''11''), (''Vessel Name'', Text ''Atlantic Star'')]"

text \<open>The manifest data of a row whose captain is not in the cache and that names no chef.\<close>

definition ex_md :: manifest_data where
  "ex_md = \<lparr>vessel_name = ''Atlantic Star'', inspection_date = ''2024-01-10T00:00:00+00:00'',
     oil_used = 50, oil_filters_used = 0, diesel_filters_used = 0, junk_reported = 0,
     captain_name = ''Jane Roe'', chef_name = [],
     observations = ''Digitized from physical manifest ID: 7''\<rparr>"

text \<open>
  Three rows that name two vessels, two captains and one chef; and a backend that creates
  the owner with the identifier 1 and fails every other request.
\<close>

definition boot_rows :: "row list" where
  "boot_rows =
     [[(''Vessel Name'', Text ''Atlantic Star''), (''Captain Full Name'', Text ''John Doe''),
       (''Chef Full Name'', Text ''Ana Paz'')],
      [(''Vessel Name'', Text ''Mar Azul''), (''Captain Full Name'', Text ''Luis Gil''),
       (''Chef Full Name'', NaN)],
      [(''Vessel Name'', Text ''Atlantic Star''), (''Captain Full Name'', Text ''John Doe''),
       (''Chef Full Name'', Text ''Ana Paz'')]]"

definition owner_backend :: "nat backend" where
  "owner_backend n rq =
     (if req_data rq = Some (person_data ''Unknown Owner'' 3 ''Default vessel owner'')
      then (Some (JObj [(''success'', JBool True),
                  (''data'', JObj [(''ID'', JInt 1), (''Name'', JStr ''Unknown Owner'')])]), n + 1)
      else (None, n + 1))"

text \<open>
  A backend that creates every compliance with the identifier 42 and answers every other
  request with the JSON list \<^verbatim>\<open>[1]\<close>; and a backend that creates the owner with the
  identifier 1 and answers every other request with \<^verbatim>\<open>{"success": true}\<close>, without \<^verbatim>\<open>data\<close>.
\<close>

definition list_backend :: "nat backend" where
  "list_backend n rq =
     (if req_endpoint rq = ''/compliances''
      then (Some (JObj [(''success'', JBool True), (''data'', JObj [(''id'', JInt 42)])]), n + 1)
      else (Some (JArr [JInt 1]), n + 1))"


text \<open>The example digitizer, with a waste type whose identifier is under the key \<^verbatim>\<open>ID\<close>.\<close>

definition upper_id_self :: "nat digitizer" where
  "upper_id_self = ex_self\<lparr>
     waste_types_cache := [(''aceite'', [(''ID'', JInt 5), (''typeName'', JStr ''Aceite'')])]\<rparr>"

text \<open>
  Between two states of the digitizer at most \<open>k\<close> requests were sent, all of them waste
  requests, and the counters did not change.
\<close>

definition wastes_sent :: "nat \<Rightarrow> 'b digitizer \<Rightarrow> 'b digitizer \<Rightarrow> bool" where
  "wastes_sent k before after =
     (stats after = stats before \<and>
      (\<exists>ws. requests after = requests before @ ws \<and> length ws \<le> k \<and>
         list_all is_waste_request ws))"

section \<open>Properties\<close>

subsection \<open>Numerals\<close>

lemma is_space_not_digit: "is_space c \<Longrightarrow> \<not> is_digit c"
  by (auto simp: is_digit_def is_space_def)

lemma is_space_not_dot: "is_space c \<Longrightarrow> c \<noteq> CHR ''.''"
  by (auto simp: is_space_def)

lemma takeWhile_app_nd: "\<forall>c\<in>set ws. \<not> P c \<Longrightarrow> takeWhile P (xs @ ws) = takeWhile P xs"
  by (induction xs) (auto simp: takeWhile_eq_Nil_iff)

lemma dropWhile_app_nd: "\<forall>c\<in>set ws. \<not> P c \<Longrightarrow> dropWhile P (xs @ ws) = dropWhile P xs @ ws"
  by (induction xs) (auto simp: dropWhile_eq_self_iff)

lemma numeral_prefix_trailing:
  assumes ws: "\<forall>c\<in>set ws. \<not> is_digit c \<and> c \<noteq> CHR ''.''"
  shows "numeral_prefix (t @ ws) = numeral_prefix t"
proof -
  have nd: "\<forall>c\<in>set ws. \<not> is_digit c" using ws by blast
  have tk: "takeWhile is_digit (t @ ws) = takeWhile is_digit t"
    using nd by (rule takeWhile_app_nd)
  have dr: "dropWhile is_digit (t @ ws) = dropWhile is_digit t @ ws"
    using nd by (rule dropWhile_app_nd)
  show ?thesis
  proof (cases "dropWhile is_digit t")
    case Nil
    show ?thesis
    proof (cases ws)
      case Nil
      then show ?thesis by simp
    next
      case (Cons c cs)
      then have "c \<noteq> CHR ''.''" using ws by simp
      then show ?thesis
        unfolding numeral_prefix_def tk dr \<open>dropWhile is_digit t = []\<close> Let_def
        using Cons by simp
    qed
  next
    case (Cons c r')
    have "takeWhile is_digit (r' @ ws) = takeWhile is_digit r'"
      using nd by (rule takeWhile_app_nd)
    then show ?thesis
      unfolding numeral_prefix_def tk dr Cons Let_def by simp
  qed
qed

lemma re_search_numeral_trailing:
  assumes ws: "\<forall>c\<in>set ws. \<not> is_digit c \<and> c \<noteq> CHR ''.''"
  shows "re_search_numeral (s @ ws) = re_search_numeral s"
proof (cases "\<forall>c\<in>set s. \<not> is_digit c")
  case True
  then have "dropWhile (\<lambda>c. \<not> is_digit c) s = []" by simp
  moreover have "dropWhile (\<lambda>c. \<not> is_digit c) (s @ ws) = []"
    using True ws by simp
  ultimately show ?thesis by (simp add: re_search_numeral_def)
next
  case False
  then obtain x where x: "x \<in> set s" "\<not> \<not> is_digit x" by blast
  have d: "dropWhile (\<lambda>c. \<not> is_digit c) (s @ ws) = dropWhile (\<lambda>c. \<not> is_digit c) s @ ws"
    using x by (rule dropWhile_append1)
  have t: "dropWhile (\<lambda>c. \<not> is_digit c) s \<noteq> []" using x by auto
  show ?thesis
    unfolding re_search_numeral_def d Let_def using t
    by (simp add: numeral_prefix_trailing [OF ws])
qed

lemma re_search_numeral_leading:
  assumes "\<forall>c\<in>set ws. \<not> is_digit c"
  shows "re_search_numeral (ws @ s) = re_search_numeral s"
proof -
  have "dropWhile (\<lambda>c. \<not> is_digit c) (ws @ s) = dropWhile (\<lambda>c. \<not> is_digit c) s"
    using assms by (induction ws) auto
  then show ?thesis by (simp add: re_search_numeral_def)
qed

lemma strip_decomp: "\<exists>l r. s = l @ strip s @ r \<and> (\<forall>c\<in>set l. is_space c) \<and> (\<forall>c\<in>set r. is_space c)"
proof -
  define u where "u = dropWhile is_space s"
  define l where "l = takeWhile is_space s"
  define r where "r = rev (takeWhile is_space (rev u))"
  have "rev (rev (dropWhile is_space (rev u)) @ r) = rev u"
    unfolding r_def rev_append rev_rev_ident by (rule takeWhile_dropWhile_id)
  then have "rev (dropWhile is_space (rev u)) @ r = u"
    unfolding rev_is_rev_conv .
  then have 2: "strip s @ r = u"
    unfolding strip_def u_def .
  have "l @ u = s"
    unfolding l_def u_def by (rule takeWhile_dropWhile_id)
  then have "l @ strip s @ r = s"
    unfolding 2 .
  then have 1: "s = l @ strip s @ r" by (rule sym)
  have 3: "\<forall>c\<in>set l. is_space c"
    unfolding l_def by (auto dest: set_takeWhileD)
  have 4: "\<forall>c\<in>set r. is_space c"
    unfolding r_def by (auto dest: set_takeWhileD)
  from 1 3 4 show ?thesis by blast
qed

lemma re_search_numeral_strip: "re_search_numeral (strip s) = re_search_numeral s"
proof -
  obtain l r where s: "s = l @ strip s @ r" and l: "\<forall>c\<in>set l. is_space c" and r: "\<forall>c\<in>set r. is_space c"
    using strip_decomp by blast
  have "re_search_numeral (l @ (strip s @ r)) = re_search_numeral (strip s @ r)"
    using l by (intro re_search_numeral_leading) (auto dest: is_space_not_digit)
  also have "\<dots> = re_search_numeral (strip s)"
    using r by (intro re_search_numeral_trailing) (auto dest: is_space_not_digit is_space_not_dot)
  finally have A: "re_search_numeral (l @ strip s @ r) = re_search_numeral (strip s)" .
  have B: "re_search_numeral s = re_search_numeral (l @ strip s @ r)"
    by (rule arg_cong [OF s])
  show ?thesis by (rule trans [OF A [symmetric] B [symmetric]])
qed

lemma not_digit_dot: "\<not> is_digit CHR ''.''"
  by (simp add: is_digit_def)

lemma takeWhile_digits_app:
  "\<forall>c\<in>set ip. is_digit c \<Longrightarrow> \<not> starts_with_digit rest \<Longrightarrow> takeWhile is_digit (ip @ rest) = ip"
  by (cases rest) (auto simp: starts_with_digit_def)

lemma dropWhile_digits_app:
  "\<forall>c\<in>set ip. is_digit c \<Longrightarrow> \<not> starts_with_digit rest \<Longrightarrow> dropWhile is_digit (ip @ rest) = rest"
  by (cases rest) (auto simp: starts_with_digit_def)

lemma numeral_prefix_int:
  assumes ip: "\<forall>c\<in>set ip. is_digit c"
    and rest: "\<not> starts_with_digit rest" "\<not> starts_with_fraction rest"
  shows "numeral_prefix (ip @ rest) = ip"
proof -
  have tk: "takeWhile is_digit (ip @ rest) = ip"
    using ip rest(1) by (rule takeWhile_digits_app)
  have dr: "dropWhile is_digit (ip @ rest) = rest"
    using ip rest(1) by (rule dropWhile_digits_app)
  show ?thesis
  proof (cases rest)
    case Nil
    then show ?thesis unfolding numeral_prefix_def tk dr Let_def by simp
  next
    case (Cons c r')
    then have "c = CHR ''.'' \<longrightarrow> takeWhile is_digit r' = []"
      using rest(2) by (cases r') (auto simp: starts_with_fraction_def)
    then show ?thesis unfolding numeral_prefix_def tk dr Let_def using Cons by auto
  qed
qed

lemma numeral_prefix_dec:
  assumes ip: "\<forall>c\<in>set ip. is_digit c"
    and fp: "fp \<noteq> []" "\<forall>c\<in>set fp. is_digit c"
    and rest: "\<not> starts_with_digit rest"
  shows "numeral_prefix (ip @ ''.'' @ fp @ rest) = ip @ ''.'' @ fp"
proof -
  have nd: "\<not> starts_with_digit (''.'' @ fp @ rest)"
    by (simp add: starts_with_digit_def not_digit_dot)
  have tk: "takeWhile is_digit (ip @ ''.'' @ fp @ rest) = ip"
    using ip nd by (rule takeWhile_digits_app)
  have dr: "dropWhile is_digit (ip @ ''.'' @ fp @ rest) = ''.'' @ fp @ rest"
    using ip nd by (rule dropWhile_digits_app)
  have tf: "takeWhile is_digit (fp @ rest) = fp"
    using fp(2) rest by (rule takeWhile_digits_app)
  show ?thesis
    unfolding numeral_prefix_def tk dr Let_def using fp(1) by (simp add: tf)
qed

lemma re_search_numeral_none:
  "\<forall>c\<in>set s. \<not> is_digit c \<Longrightarrow> re_search_numeral s = None"
  by (simp add: re_search_numeral_def)

lemma re_search_numeral_at_digit:
  assumes "ip \<noteq> []" "\<forall>c\<in>set ip. is_digit c"
  shows "re_search_numeral (ip @ rest) = Some (numeral_prefix (ip @ rest))"
proof -
  have "dropWhile (\<lambda>c. \<not> is_digit c) (ip @ rest) = ip @ rest"
    using assms by (cases ip) auto
  then show ?thesis using assms(1) by (simp add: re_search_numeral_def)
qed

lemma float_of_numeral_int:
  "\<forall>c\<in>set ip. is_digit c \<Longrightarrow> float_of_numeral ip = of_nat (dec ip)"
  by (simp add: float_of_numeral_def Let_def dec_def takeWhile_eq_all_conv [THEN iffD2])

lemma float_of_numeral_dec:
  assumes ip: "\<forall>c\<in>set ip. is_digit c"
  shows "float_of_numeral (ip @ CHR ''.'' # fp) = of_nat (dec ip) + of_nat (dec fp) / 10 ^ length fp"
proof -
  have nd: "\<not> starts_with_digit (''.'' @ fp)"
    by (simp add: starts_with_digit_def not_digit_dot)
  have "takeWhile is_digit (ip @ ''.'' @ fp) = ip"
    using ip nd by (rule takeWhile_digits_app)
  then have "takeWhile is_digit (ip @ CHR ''.'' # fp) = ip" by simp
  then show ?thesis by (simp add: float_of_numeral_def Let_def)
qed

lemma clean_numeric_value_search:
  "clean_numeric_value (Text s) =
     (case re_search_numeral s of Some g \<Rightarrow> float_of_numeral g | None \<Rightarrow> 0)"
proof (cases "s = []")
  case True
  then show ?thesis by (simp add: clean_numeric_value_def re_search_numeral_def)
next
  case False
  then show ?thesis by (simp add: clean_numeric_value_def re_search_numeral_strip)
qed

text \<open>
  Claim C7. \<^verbatim>\<open>clean_numeric_value\<close> returns 0.0 for a missing (NaN) or empty input and for a
  text without any digit. Otherwise the text is \<open>pre @ ip @ rest\<close> with no digit in \<open>pre\<close> and
  \<open>ip\<close> the first run of digits: the result is the value of \<open>ip\<close> when no fraction follows,
  and the value of \<open>ip.fp\<close> when a dot and the run of digits \<open>fp\<close> follow.
\<close>

theorem clean_numeric_value_first_numeral:
  "clean_numeric_value NaN = 0 \<and>
   clean_numeric_value (Text []) = 0 \<and>
   ((\<forall>c\<in>set s. \<not> is_digit c) \<longrightarrow> clean_numeric_value (Text s) = 0) \<and>
   ((\<forall>c\<in>set pre. \<not> is_digit c) \<and> ip \<noteq> [] \<and> (\<forall>c\<in>set ip. is_digit c) \<longrightarrow>
      (\<not> starts_with_digit rest \<and> \<not> starts_with_fraction rest \<longrightarrow>
         clean_numeric_value (Text (pre @ ip @ rest)) = of_nat (dec ip)) \<and>
      (fp \<noteq> [] \<and> (\<forall>c\<in>set fp. is_digit c) \<and> \<not> starts_with_digit rest \<longrightarrow>
         clean_numeric_value (Text (pre @ ip @ ''.'' @ fp @ rest)) =
           of_nat (dec ip) + of_nat (dec fp) / 10 ^ length fp))"
proof (intro conjI impI)
  show "clean_numeric_value NaN = 0" by (simp add: clean_numeric_value_def)
  show "clean_numeric_value (Text []) = 0" by (simp add: clean_numeric_value_def)
next
  assume "\<forall>c\<in>set s. \<not> is_digit c"
  then show "clean_numeric_value (Text s) = 0"
    by (simp add: clean_numeric_value_search re_search_numeral_none)
next
  assume h: "(\<forall>c\<in>set pre. \<not> is_digit c) \<and> ip \<noteq> [] \<and> (\<forall>c\<in>set ip. is_digit c)"
    and r: "\<not> starts_with_digit rest \<and> \<not> starts_with_fraction rest"
  have "re_search_numeral (pre @ ip @ rest) = re_search_numeral (ip @ rest)"
    using h by (intro re_search_numeral_leading) simp
  also have "\<dots> = Some (numeral_prefix (ip @ rest))"
    using h by (intro re_search_numeral_at_digit) simp_all
  also have "numeral_prefix (ip @ rest) = ip"
    using h r by (intro numeral_prefix_int) simp_all
  finally show "clean_numeric_value (Text (pre @ ip @ rest)) = of_nat (dec ip)"
    using h by (simp add: clean_numeric_value_search float_of_numeral_int)
next
  assume h: "(\<forall>c\<in>set pre. \<not> is_digit c) \<and> ip \<noteq> [] \<and> (\<forall>c\<in>set ip. is_digit c)"
    and r: "fp \<noteq> [] \<and> (\<forall>c\<in>set fp. is_digit c) \<and> \<not> starts_with_digit rest"
  have "re_search_numeral (pre @ ip @ ''.'' @ fp @ rest) = re_search_numeral (ip @ ''.'' @ fp @ rest)"
    using h by (intro re_search_numeral_leading) simp
  also have "\<dots> = Some (numeral_prefix (ip @ ''.'' @ fp @ rest))"
    using h by (intro re_search_numeral_at_digit) simp_all
  also have "numeral_prefix (ip @ ''.'' @ fp @ rest) = ip @ ''.'' @ fp"
    using h r by (intro numeral_prefix_dec) simp_all
  finally show "clean_numeric_value (Text (pre @ ip @ ''.'' @ fp @ rest)) =
      of_nat (dec ip) + of_nat (dec fp) / 10 ^ length fp"
    using h by (simp add: clean_numeric_value_search float_of_numeral_dec)
qed

theorem clean_numeric_value_first_numeral_witness:
  "clean_numeric_value (Text ''n/a'') = 0 \<and>
   clean_numeric_value (Text ''120 litros'') = 120 \<and>
   clean_numeric_value (Text ''aprox 12.50 kg'') = 25 / 2"
  using clean_numeric_value_first_numeral [of "''n/a''" "''''" "''120''" "'' litros''" "''5''"]
    clean_numeric_value_first_numeral [of "''''" "''aprox ''" "''12''" "'' kg''" "''50''"]
  by (simp add: is_digit_def starts_with_digit_def starts_with_fraction_def dec_def digit_val_def)


subsection \<open>Dates\<close>

lemma is_digit_cases:
  "is_digit c \<longleftrightarrow> c = CHR ''0'' \<or> c = CHR ''1'' \<or> c = CHR ''2'' \<or> c = CHR ''3'' \<or> c = CHR ''4'' \<or>
     c = CHR ''5'' \<or> c = CHR ''6'' \<or> c = CHR ''7'' \<or> c = CHR ''8'' \<or> c = CHR ''9''"
  by (auto simp: is_digit_def)

lemma digit_val_bound: "is_digit c \<Longrightarrow> digit_val c < 10"
  by (auto simp: is_digit_cases digit_val_def)

lemma digit_char_val: "is_digit c \<Longrightarrow> digit_char (digit_val c) = c"
  by (auto simp: is_digit_cases digit_val_def digit_char_def)

lemma dec_1: "dec [a] = digit_val a"
  by (simp add: dec_def)

lemma dec_2: "dec [a, b] = 10 * digit_val a + digit_val b"
  by (simp add: dec_def)

lemma dec_4: "dec [a, b, c, d] = 1000 * digit_val a + 100 * digit_val b + 10 * digit_val c + digit_val d"
  by (simp add: dec_def)

lemma re_month_digits:
  assumes "is_digit a" "is_digit b"
  shows "re_month (a # b # r) =
     (if 1 \<le> dec [a, b] \<and> dec [a, b] \<le> 12 then [(dec [a, b], r)] else []) @
     (if a \<noteq> CHR ''0'' then [(dec [a], b # r)] else [])"
  using assms unfolding is_digit_cases
  by (elim disjE) (simp_all add: re_month_def re_two_def re_one_def dec_def digit_val_def)

lemma re_day_digits:
  assumes "is_digit a" "is_digit b"
  shows "re_day [a, b] =
     (if 1 \<le> dec [a, b] \<and> dec [a, b] \<le> 31 then [(dec [a, b], [])] else []) @
     (if a \<noteq> CHR ''0'' then [(dec [a], [b])] else [])"
  using assms unfolding is_digit_cases
  by (elim disjE) (simp_all add: re_day_def re_two_def re_one_def dec_def digit_val_def)

lemma re_year_digits:
  assumes "is_digit a" "is_digit b" "is_digit c" "is_digit d"
  shows "re_year (a # b # c # d # r) = [(dec [a, b, c, d], r)]"
  using assms by (simp add: re_year_def)

lemma valid_date_month: "valid_date y m d \<Longrightarrow> 1 \<le> m \<and> m \<le> 12"
  by (simp add: valid_date_def)

lemma valid_date_day: "valid_date y m d \<Longrightarrow> 1 \<le> d \<and> d \<le> 31"
  by (auto simp: valid_date_def days_in_month_def split: if_splits)

lemma strptime_ymd:
  assumes y: "is_digit y1" "is_digit y2" "is_digit y3" "is_digit y4"
    and m: "is_digit m1" "is_digit m2"
    and d: "is_digit d1" "is_digit d2"
    and sep: "\<not> is_digit sep"
  shows "strptime sep [y1, y2, y3, y4, sep, m1, m2, sep, d1, d2] =
     (if valid_date (dec [y1, y2, y3, y4]) (dec [m1, m2]) (dec [d1, d2])
      then Some (dec [y1, y2, y3, y4], dec [m1, m2], dec [d1, d2]) else None)"
proof -
  define Y where "Y = dec [y1, y2, y3, y4]"
  define M where "M = dec [m1, m2]"
  define D where "D = dec [d1, d2]"
  define mok where "mok \<longleftrightarrow> 1 \<le> M \<and> M \<le> 12"
  define dok where "dok \<longleftrightarrow> 1 \<le> D \<and> D \<le> 31"
  have ne: "m2 \<noteq> sep" using m sep by auto
  have yr: "re_year [y1, y2, y3, y4, sep, m1, m2, sep, d1, d2] =
      [(Y, [sep, m1, m2, sep, d1, d2])]"
    using y by (simp add: re_year_digits Y_def)
  have mo: "re_month [m1, m2, sep, d1, d2] =
      (if mok then [(M, [sep, d1, d2])] else []) @
      (if m1 \<noteq> CHR ''0'' then [(dec [m1], [m2, sep, d1, d2])] else [])"
    unfolding mok_def M_def by (rule re_month_digits [OF m])
  have dy: "re_day [d1, d2] =
      (if dok then [(D, [])] else []) @ (if d1 \<noteq> CHR ''0'' then [(dec [d1], [d2])] else [])"
    unfolding dok_def D_def by (rule re_day_digits [OF d])
  have matches: "strptime_matches sep [y1, y2, y3, y4, sep, m1, m2, sep, d1, d2] =
     (if mok then map (\<lambda>(d, s5). ((Y, M, d), s5)) (re_day [d1, d2]) else [])"
    unfolding strptime_matches_def yr
    using ne by (simp add: re_lit_def mo)
  have v1: "valid_date Y M D \<Longrightarrow> mok"
    unfolding mok_def by (rule valid_date_month)
  have v2: "valid_date Y M D \<Longrightarrow> dok"
    unfolding dok_def by (rule valid_date_day)
  have "strptime sep [y1, y2, y3, y4, sep, m1, m2, sep, d1, d2] =
     (if valid_date Y M D then Some (Y, M, D) else None)"
    unfolding strptime_def matches dy
    using v1 v2 by (cases mok; cases dok; cases "d1 = CHR ''0''") auto
  then show ?thesis unfolding Y_def M_def D_def .
qed

lemma split10: "d < 10 \<Longrightarrow> (10 * k + d) div 10 = k \<and> (10 * k + d) mod 10 = (d::nat)"
  by simp

lemma digits4:
  fixes a b c d :: nat
  assumes bd: "a < 10" "b < 10" "c < 10" "d < 10"
  defines "n \<equiv> 1000 * a + 100 * b + 10 * c + d"
  shows "n div 1000 mod 10 = a \<and> n div 100 mod 10 = b \<and> n div 10 mod 10 = c \<and> n mod 10 = d"
proof -
  have e1: "n = 10 * (100 * a + 10 * b + c) + d" by (simp add: n_def)
  have d1: "n div 10 = 100 * a + 10 * b + c" and m1: "n mod 10 = d"
    unfolding e1 using split10 [OF bd(4)] by blast+
  have e2: "n div 10 = 10 * (10 * a + b) + c" by (simp add: d1)
  have "n div 10 div 10 = 10 * a + b" and m2: "n div 10 mod 10 = c"
    unfolding e2 using split10 [OF bd(3)] by blast+
  then have d2: "n div 100 = 10 * a + b" by (simp add: div_mult2_eq [symmetric])
  have "n div 100 div 10 = a" and m3: "n div 100 mod 10 = b"
    unfolding d2 using split10 [OF bd(2)] by blast+
  then have d3: "n div 1000 = a" by (simp add: div_mult2_eq [symmetric])
  show ?thesis using bd by (simp add: d3 m1 m2 m3)
qed

lemma pad2_dec:
  assumes a: "is_digit a" and b: "is_digit b"
  shows "pad2 (dec [a, b]) = [a, b]"
proof -
  have bd: "digit_val a < 10" "digit_val b < 10" using a b by (simp_all add: digit_val_bound)
  have "(10 * digit_val a + digit_val b) div 10 = digit_val a"
    "(10 * digit_val a + digit_val b) mod 10 = digit_val b"
    using split10 [OF bd(2)] by blast+
  then have "digit_char ((10 * digit_val a + digit_val b) div 10) = digit_char (digit_val a)"
    "digit_char (10 * digit_val a + digit_val b) = digit_char (digit_val b)"
    unfolding digit_char_def by simp_all
  then show ?thesis using a b by (simp add: pad2_def dec_2 digit_char_val)
qed

lemma pad4_dec:
  assumes "is_digit a" "is_digit b" "is_digit c" "is_digit d"
  shows "pad4 (dec [a, b, c, d]) = [a, b, c, d]"
proof -
  define n where "n = 1000 * digit_val a + 100 * digit_val b + 10 * digit_val c + digit_val d"
  have bd: "digit_val a < 10" "digit_val b < 10" "digit_val c < 10" "digit_val d < 10"
    using assms by (simp_all add: digit_val_bound)
  have "n div 1000 mod 10 = digit_val a" "n div 100 mod 10 = digit_val b"
    "n div 10 mod 10 = digit_val c" "n mod 10 = digit_val d"
    using digits4 [OF bd] unfolding n_def by blast+
  then have "digit_char (n div 1000) = digit_char (digit_val a)"
    "digit_char (n div 100) = digit_char (digit_val b)"
    "digit_char (n div 10) = digit_char (digit_val c)"
    "digit_char n = digit_char (digit_val d)"
    unfolding digit_char_def by simp_all
  then show ?thesis using assms by (simp add: pad4_def dec_4 n_def [symmetric] digit_char_val)
qed

lemma format_date_ymd:
  assumes y: "is_digit y1" "is_digit y2" "is_digit y3" "is_digit y4"
    and m: "is_digit m1" "is_digit m2"
    and d: "is_digit d1" "is_digit d2"
    and sep: "sep = CHR ''/'' \<or> sep = CHR ''-''"
  shows "format_date now ([y1, y2, y3, y4, sep, m1, m2, sep, d1, d2]) =
     (if valid_date (dec [y1, y2, y3, y4]) (dec [m1, m2]) (dec [d1, d2])
      then [y1, y2, y3, y4, CHR ''-'', m1, m2, CHR ''-'', d1, d2] @ ''T00:00:00+00:00''
      else now)"
proof -
  have nd: "\<not> is_digit CHR ''/''" "\<not> is_digit CHR ''-''" by (simp_all add: is_digit_def)
  have ns: "y1 \<noteq> CHR ''/''" "y2 \<noteq> CHR ''/''" "y3 \<noteq> CHR ''/''" "y4 \<noteq> CHR ''/''"
    "m1 \<noteq> CHR ''/''" "m2 \<noteq> CHR ''/''" "d1 \<noteq> CHR ''/''" "d2 \<noteq> CHR ''/''"
    using y m d nd by auto
  have p: "parse_date ([y1, y2, y3, y4, sep, m1, m2, sep, d1, d2]) =
      strptime sep ([y1, y2, y3, y4, sep, m1, m2, sep, d1, d2])"
    using sep ns by (auto simp: parse_date_def)
  have s: "\<not> is_digit sep" using sep nd by auto
  show ?thesis
    unfolding format_date_def p strptime_ymd [OF y m d s]
    using y m d by (simp add: isoformat_def pad2_dec pad4_dec)
qed

text \<open>
  Claim C8. For a date written with four, two and two digits, \<^verbatim>\<open>format_date\<close> returns the
  same string for the form with slashes and the form with dashes; when the date exists in
  the calendar, that string is the date in ISO-8601 at midnight with the UTC offset. When
  the text cannot be parsed, the result is the current UTC instant (the function never
  raises: it is total).
\<close>

theorem format_date_slash_dash:
  "(is_digit y1 \<and> is_digit y2 \<and> is_digit y3 \<and> is_digit y4 \<and>
    is_digit m1 \<and> is_digit m2 \<and> is_digit d1 \<and> is_digit d2 \<longrightarrow>
      format_date now ([y1, y2, y3, y4, CHR ''/'', m1, m2, CHR ''/'', d1, d2]) =
      format_date now ([y1, y2, y3, y4, CHR ''-'', m1, m2, CHR ''-'', d1, d2]) \<and>
      (valid_date (dec [y1, y2, y3, y4]) (dec [m1, m2]) (dec [d1, d2]) \<longrightarrow>
         format_date now ([y1, y2, y3, y4, CHR ''/'', m1, m2, CHR ''/'', d1, d2]) =
         [y1, y2, y3, y4, CHR ''-'', m1, m2, CHR ''-'', d1, d2] @ ''T00:00:00+00:00'')) \<and>
   (parse_date date_str = None \<longrightarrow> format_date now date_str = now)"
proof (intro conjI impI)
  assume h: "is_digit y1 \<and> is_digit y2 \<and> is_digit y3 \<and> is_digit y4 \<and>
    is_digit m1 \<and> is_digit m2 \<and> is_digit d1 \<and> is_digit d2"
  have sl: "format_date now ([y1, y2, y3, y4, CHR ''/'', m1, m2, CHR ''/'', d1, d2]) =
     (if valid_date (dec [y1, y2, y3, y4]) (dec [m1, m2]) (dec [d1, d2])
      then [y1, y2, y3, y4, CHR ''-'', m1, m2, CHR ''-'', d1, d2] @ ''T00:00:00+00:00''
      else now)"
    using h by (intro format_date_ymd) simp_all
  have da: "format_date now ([y1, y2, y3, y4, CHR ''-'', m1, m2, CHR ''-'', d1, d2]) =
     (if valid_date (dec [y1, y2, y3, y4]) (dec [m1, m2]) (dec [d1, d2])
      then [y1, y2, y3, y4, CHR ''-'', m1, m2, CHR ''-'', d1, d2] @ ''T00:00:00+00:00''
      else now)"
    using h by (intro format_date_ymd) simp_all
  show "format_date now ([y1, y2, y3, y4, CHR ''/'', m1, m2, CHR ''/'', d1, d2]) =
      format_date now ([y1, y2, y3, y4, CHR ''-'', m1, m2, CHR ''-'', d1, d2])"
    using sl da by simp
  assume "valid_date (dec [y1, y2, y3, y4]) (dec [m1, m2]) (dec [d1, d2])"
  then show "format_date now ([y1, y2, y3, y4, CHR ''/'', m1, m2, CHR ''/'', d1, d2]) =
         [y1, y2, y3, y4, CHR ''-'', m1, m2, CHR ''-'', d1, d2] @ ''T00:00:00+00:00''"
    using sl by simp
next
  assume "parse_date date_str = None"
  then show "format_date now date_str = now" by (simp add: format_date_def)
qed

theorem format_date_slash_dash_witness:
  "format_date ''2025-06-01T12:30:00+00:00'' ''2024/03/15'' = ''2024-03-15T00:00:00+00:00'' \<and>
   format_date ''2025-06-01T12:30:00+00:00'' ''2024-03-15'' = ''2024-03-15T00:00:00+00:00'' \<and>
   format_date ''2025-06-01T12:30:00+00:00'' ''15 de marzo'' = ''2025-06-01T12:30:00+00:00''"
proof -
  have v: "valid_date (dec ''2024'') (dec ''03'') (dec ''15'')"
    by (simp add: valid_date_def days_in_month_def dec_def digit_val_def)
  have p: "parse_date ''15 de marzo'' = None"
    by (simp add: parse_date_def strptime_def strptime_matches_def re_year_def is_digit_def)
  show ?thesis
    using v p
      format_date_slash_dash [of "CHR ''2''" "CHR ''0''" "CHR ''2''" "CHR ''4''" "CHR ''0''" "CHR ''3''"
        "CHR ''1''" "CHR ''5''" "''2025-06-01T12:30:00+00:00''" "''15 de marzo''"]
    by (auto simp: is_digit_def)
qed


subsection \<open>Requests of one manifest\<close>

lemma upper_POST: "upper ''POST'' = ''POST''"
  by (simp add: upper_def to_upper_def)

lemma make_request_POST:
  "make_request backend ''POST'' ep d self =
     (Inr (fst (backend (server self) \<lparr>req_method = ''POST'', req_endpoint = ep, req_data = d\<rparr>)),
      self\<lparr>server := snd (backend (server self) \<lparr>req_method = ''POST'', req_endpoint = ep, req_data = d\<rparr>),
           requests := requests self @ [\<lparr>req_method = ''POST'', req_endpoint = ep, req_data = d\<rparr>]\<rparr>)"
  by (simp add: make_request_def upper_POST send_def split: prod.splits)

lemma wastes_sent_refl: "wastes_sent k s s"
  by (simp add: wastes_sent_def)

lemma wastes_sent_mono: "wastes_sent j s s' \<Longrightarrow> j \<le> k \<Longrightarrow> wastes_sent k s s'"
  by (auto simp: wastes_sent_def)

lemma wastes_sent_trans:
  assumes "wastes_sent j s0 s1" "wastes_sent k s1 s2"
  shows "wastes_sent (j + k) s0 s2"
proof -
  from assms(1) obtain ws1 where 1: "stats s1 = stats s0" "requests s1 = requests s0 @ ws1"
    "length ws1 \<le> j" "list_all is_waste_request ws1" by (auto simp: wastes_sent_def)
  from assms(2) obtain ws2 where 2: "stats s2 = stats s1" "requests s2 = requests s1 @ ws2"
    "length ws2 \<le> k" "list_all is_waste_request ws2" by (auto simp: wastes_sent_def)
  have A: "requests s2 = requests s0 @ (ws1 @ ws2)" using 1(2) 2(2) by simp
  have B: "length (ws1 @ ws2) \<le> j + k" using 1(3) 2(3) by simp
  have C: "list_all is_waste_request (ws1 @ ws2)" using 1(4) 2(4) by simp
  have "\<exists>ws. requests s2 = requests s0 @ ws \<and> length ws \<le> j + k \<and> list_all is_waste_request ws"
    by (rule exI [of _ "ws1 @ ws2"], intro conjI, rule A, rule B, rule C)
  then show ?thesis using 1(1) 2(1) by (simp add: wastes_sent_def)
qed

lemma create_waste_step:
  "wastes_sent 1 self (snd (create_waste backend md v cid q t k self))"
proof (cases "q > 0 \<and> \<not> falsy_dict (get_waste_type_by_name self t)")
  case False
  then have "snd (create_waste backend md v cid q t k self) = self"
    by (auto simp: create_waste_def falsy_dict_def split: option.splits)
  then show ?thesis by (simp add: wastes_sent_refl)
next
  case True
  then obtain wt where wt: "get_waste_type_by_name self t = Some wt" "wt \<noteq> []" "q > 0"
    by (auto simp: falsy_dict_def split: option.splits)
  define rq where "rq = \<lparr>req_method = ''POST'', req_endpoint = ''/wastes'',
      req_data = Some (waste_data md v wt q cid)\<rparr>"
  have s: "snd (create_waste backend md v cid q t k self) =
      self\<lparr>server := snd (backend (server self) rq), requests := requests self @ [rq]\<rparr>"
    using wt by (simp add: create_waste_def make_request_POST rq_def split: sum.splits)
  have A: "requests (snd (create_waste backend md v cid q t k self)) = requests self @ [rq]"
    unfolding s by simp
  have B: "length [rq] \<le> 1" by simp
  have C: "list_all is_waste_request [rq]" by (simp add: is_waste_request_def rq_def)
  have "\<exists>ws. requests (snd (create_waste backend md v cid q t k self)) = requests self @ ws \<and>
      length ws \<le> 1 \<and> list_all is_waste_request ws"
    by (rule exI [of _ "[rq]"], intro conjI, rule A, rule B, rule C)
  moreover have "stats (snd (create_waste backend md v cid q t k self)) = stats self"
    unfolding s by simp
  ultimately show ?thesis by (simp add: wastes_sent_def)
qed

lemma create_waste_ok:
  assumes "\<And>b rq. is_waste_request rq \<Longrightarrow> object_or_absent (fst (backend b rq))"
  shows "\<exists>n. fst (create_waste backend md v cid q t k self) = Inr n"
proof (cases "q > 0 \<and> \<not> falsy_dict (get_waste_type_by_name self t)")
  case False
  then show ?thesis
    by (auto simp: create_waste_def falsy_dict_def split: option.splits)
next
  case True
  then obtain wt where wt: "get_waste_type_by_name self t = Some wt" "wt \<noteq> []" "q > 0"
    by (auto simp: falsy_dict_def split: option.splits)
  define rq where "rq = \<lparr>req_method = ''POST'', req_endpoint = ''/wastes'',
      req_data = Some (waste_data md v wt q cid)\<rparr>"
  have "is_waste_request rq" by (simp add: is_waste_request_def rq_def)
  then have "object_or_absent (fst (backend (server self) rq))" by (rule assms)
  then obtain ok where "response_ok (fst (backend (server self) rq)) = Inr ok"
    by (auto simp: object_or_absent_def split: sum.splits)
  then show ?thesis
    using wt by (simp add: create_waste_def make_request_POST rq_def)
qed

lemma create_wastes_step:
  "wastes_sent 4 self (snd (create_wastes backend md v cid self))"
proof -
  obtain x1 s1 where r1: "create_waste backend md v cid (oil_used md) ''Aceite'' 0 self = (x1, s1)"
    by (cases "create_waste backend md v cid (oil_used md) ''Aceite'' 0 self")
  have w1: "wastes_sent 1 self s1"
    using create_waste_step [of self backend md v cid "oil_used md" "''Aceite''" 0] r1 by simp
  show ?thesis
  proof (cases x1)
    case (Inl e)
    have "snd (create_wastes backend md v cid self) = s1"
      using r1 Inl by (simp add: create_wastes_def)
    then show ?thesis using wastes_sent_mono [OF w1, of 4] by simp
  next
    case (Inr n1)
    obtain x2 s2 where r2:
      "create_waste backend md v cid (oil_filters_used md) ''Filtros de Aceite'' n1 s1 = (x2, s2)"
      by (cases "create_waste backend md v cid (oil_filters_used md) ''Filtros de Aceite'' n1 s1")
    have "wastes_sent 1 s1 s2"
      using create_waste_step [of s1 backend md v cid "oil_filters_used md" "''Filtros de Aceite''" n1] r2
      by simp
    with w1 have w2: "wastes_sent (1 + 1) self s2" by (rule wastes_sent_trans)
    show ?thesis
    proof (cases x2)
      case (Inl e)
      have "snd (create_wastes backend md v cid self) = s2"
        using r1 Inr r2 Inl by (simp add: create_wastes_def)
      then show ?thesis using wastes_sent_mono [OF w2, of 4] by simp
    next
      case n2: (Inr n2)
      obtain x3 s3 where r3:
        "create_waste backend md v cid (diesel_filters_used md) ''Filtros Diesel'' n2 s2 = (x3, s3)"
        by (cases "create_waste backend md v cid (diesel_filters_used md) ''Filtros Diesel'' n2 s2")
      have "wastes_sent 1 s2 s3"
        using create_waste_step [of s2 backend md v cid "diesel_filters_used md" "''Filtros Diesel''" n2] r3
        by simp
      with w2 have w3: "wastes_sent (1 + 1 + 1) self s3" by (rule wastes_sent_trans)
      show ?thesis
      proof (cases x3)
        case (Inl e)
        have "snd (create_wastes backend md v cid self) = s3"
          using r1 Inr r2 n2 r3 Inl by (simp add: create_wastes_def)
        then show ?thesis using wastes_sent_mono [OF w3, of 4] by simp
      next
        case n3: (Inr n3)
        obtain x4 s4 where r4:
          "create_waste backend md v cid (junk_reported md) ''Desechos Solidos'' n3 s3 = (x4, s4)"
          by (cases "create_waste backend md v cid (junk_reported md) ''Desechos Solidos'' n3 s3")
        have "wastes_sent 1 s3 s4"
          using create_waste_step [of s3 backend md v cid "junk_reported md" "''Desechos Solidos''" n3] r4
          by simp
        with w3 have w4: "wastes_sent (1 + 1 + 1 + 1) self s4" by (rule wastes_sent_trans)
        have "snd (create_wastes backend md v cid self) = s4"
          using r1 Inr r2 n2 r3 n3 r4 by (simp add: create_wastes_def)
        then show ?thesis using wastes_sent_mono [OF w4, of 4] by simp
      qed
    qed
  qed
qed

lemma create_wastes_ok:
  assumes h: "\<And>b rq. is_waste_request rq \<Longrightarrow> object_or_absent (fst (backend b rq))"
  shows "\<exists>n. fst (create_wastes backend md v cid self) = Inr n"
proof -
  obtain x1 s1 where r1: "create_waste backend md v cid (oil_used md) ''Aceite'' 0 self = (x1, s1)"
    by (cases "create_waste backend md v cid (oil_used md) ''Aceite'' 0 self")
  from create_waste_ok [where backend = backend, OF h, of md v cid "oil_used md" "''Aceite''" 0 self]
  obtain n1 where 1: "x1 = Inr n1" using r1 by auto
  obtain x2 s2 where r2:
    "create_waste backend md v cid (oil_filters_used md) ''Filtros de Aceite'' n1 s1 = (x2, s2)"
    by (cases "create_waste backend md v cid (oil_filters_used md) ''Filtros de Aceite'' n1 s1")
  from create_waste_ok [where backend = backend, OF h, of md v cid "oil_filters_used md" "''Filtros de Aceite''" n1 s1]
  obtain n2 where 2: "x2 = Inr n2" using r2 by auto
  obtain x3 s3 where r3:
    "create_waste backend md v cid (diesel_filters_used md) ''Filtros Diesel'' n2 s2 = (x3, s3)"
    by (cases "create_waste backend md v cid (diesel_filters_used md) ''Filtros Diesel'' n2 s2")
  from create_waste_ok [where backend = backend, OF h, of md v cid "diesel_filters_used md" "''Filtros Diesel''" n2 s2]
  obtain n3 where 3: "x3 = Inr n3" using r3 by auto
  obtain x4 s4 where r4:
    "create_waste backend md v cid (junk_reported md) ''Desechos Solidos'' n3 s3 = (x4, s4)"
    by (cases "create_waste backend md v cid (junk_reported md) ''Desechos Solidos'' n3 s3")
  from create_waste_ok [where backend = backend, OF h, of md v cid "junk_reported md" "''Desechos Solidos''" n3 s3]
  obtain n4 where 4: "x4 = Inr n4" using r4 by auto
  have "fst (create_wastes backend md v cid self) = Inr n4"
    using r1 1 r2 2 r3 3 r4 4 by (simp add: create_wastes_def)
  then show ?thesis by blast
qed

lemma create_wastes_stats: "stats (snd (create_wastes backend md v cid self)) = stats self"
  using create_wastes_step [of self backend md v cid] by (simp add: wastes_sent_def)

lemma compliance_id_truthy:
  "compliance_id_of c = Inr cid \<Longrightarrow> truthy cid \<Longrightarrow> truthy c"
  by (cases c) (auto simp: compliance_id_of_def json_get_def dict_get_def split: if_splits)

lemma ccm_no_vessel:
  "falsy_dict (find_or_create_vessel self (vessel_name md)) \<Longrightarrow>
   create_compliance_manifest backend md self = (False, self)"
  by (auto simp: create_compliance_manifest_def falsy_dict_def split: option.splits)

lemma ccm_not_created:
  assumes "find_or_create_vessel self (vessel_name md) = Some vessel" "vessel \<noteq> []"
    and "\<not> compliance_created (fst (backend (server self) (post ''/compliances'' (compliance_data self md vessel))))"
  shows "create_compliance_manifest backend md self =
     (False, self\<lparr>server := snd (backend (server self) (post ''/compliances'' (compliance_data self md vessel))),
                 requests := requests self @ [post ''/compliances'' (compliance_data self md vessel)]\<rparr>)"
  using assms
  by (auto simp: create_compliance_manifest_def make_request_POST post_def compliance_created_def Let_def
      split: option.splits sum.splits prod.splits)

lemma ccm_created:
  assumes "find_or_create_vessel self (vessel_name md) = Some vessel" "vessel \<noteq> []"
    and "compliance_created (fst (backend (server self) (post ''/compliances'' (compliance_data self md vessel))))"
  shows "\<exists>cid. create_compliance_manifest backend md self =
     (case fst (create_wastes backend md vessel cid
        (self\<lparr>server := snd (backend (server self) (post ''/compliances'' (compliance_data self md vessel))),
              requests := requests self @ [post ''/compliances'' (compliance_data self md vessel)]\<rparr>)) of
        Inl e \<Rightarrow> False | Inr n \<Rightarrow> True,
      snd (create_wastes backend md vessel cid
        (self\<lparr>server := snd (backend (server self) (post ''/compliances'' (compliance_data self md vessel))),
              requests := requests self @ [post ''/compliances'' (compliance_data self md vessel)]\<rparr>)))"
proof -
  let ?rq = "post ''/compliances'' (compliance_data self md vessel)"
  let ?s1 = "self\<lparr>server := snd (backend (server self) ?rq), requests := requests self @ [?rq]\<rparr>"
  from assms(3) obtain r compliance cid where r: "fst (backend (server self) ?rq) = Some r"
    and ok: "response_ok (Some r) = Inr True"
    and d: "json_get r ''data'' = Inr compliance"
    and cid: "compliance_id_of compliance = Inr cid" "truthy cid"
    by (auto simp: compliance_created_def split: option.splits sum.splits)
  have td: "truthy compliance" using cid by (rule compliance_id_truthy)
  obtain res s2 where w: "create_wastes backend md vessel cid ?s1 = (res, s2)"
    by (cases "create_wastes backend md vessel cid ?s1")
  have "create_compliance_manifest backend md self = (case res of Inl e \<Rightarrow> False | Inr n \<Rightarrow> True, s2)"
    using assms(1,2) r ok d cid td w
    by (simp add: create_compliance_manifest_def make_request_POST post_def split: sum.splits)
  then show ?thesis using w by (intro exI [of _ cid]) simp
qed

lemma ccm_success:
  assumes v: "find_or_create_vessel self (vessel_name md) = Some vessel" "vessel \<noteq> []"
    and c: "compliance_created (fst (backend (server self) (post ''/compliances'' (compliance_data self md vessel))))"
    and h: "\<And>b rq. is_waste_request rq \<Longrightarrow> object_or_absent (fst (backend b rq))"
  shows "fst (create_compliance_manifest backend md self)"
proof -
  from ccm_created [where backend = backend, OF v c] obtain cid where
    e: "create_compliance_manifest backend md self =
     (case fst (create_wastes backend md vessel cid
        (self\<lparr>server := snd (backend (server self) (post ''/compliances'' (compliance_data self md vessel))),
              requests := requests self @ [post ''/compliances'' (compliance_data self md vessel)]\<rparr>)) of
        Inl e \<Rightarrow> False | Inr n \<Rightarrow> True,
      snd (create_wastes backend md vessel cid
        (self\<lparr>server := snd (backend (server self) (post ''/compliances'' (compliance_data self md vessel))),
              requests := requests self @ [post ''/compliances'' (compliance_data self md vessel)]\<rparr>)))"
    by blast
  from create_wastes_ok [where backend = backend, OF h] obtain n where
    "fst (create_wastes backend md vessel cid
        (self\<lparr>server := snd (backend (server self) (post ''/compliances'' (compliance_data self md vessel))),
              requests := requests self @ [post ''/compliances'' (compliance_data self md vessel)]\<rparr>)) = Inr n"
    by blast
  then show ?thesis unfolding e by simp
qed

lemma ccm_stats: "stats (snd (create_compliance_manifest backend md self)) = stats self"
proof (cases "falsy_dict (find_or_create_vessel self (vessel_name md))")
  case True
  then show ?thesis by (simp add: ccm_no_vessel)
next
  case False
  then obtain vessel where v: "find_or_create_vessel self (vessel_name md) = Some vessel" "vessel \<noteq> []"
    by (auto simp: falsy_dict_def split: option.splits)
  let ?rq = "post ''/compliances'' (compliance_data self md vessel)"
  show ?thesis
  proof (cases "compliance_created (fst (backend (server self) ?rq))")
    case True
    from ccm_created [where backend = backend, OF v True] obtain cid where
      c: "snd (create_compliance_manifest backend md self) =
        snd (create_wastes backend md vessel cid
          (self\<lparr>server := snd (backend (server self) ?rq), requests := requests self @ [?rq]\<rparr>))"
      by force
    show ?thesis unfolding c by (simp add: create_wastes_stats)
  next
    case False
    show ?thesis unfolding ccm_not_created [where backend = backend, OF v False] by simp
  qed
qed

lemma sent_since_append: "requests s' = requests s @ new \<Longrightarrow> sent_since s s' = new"
  by (simp add: sent_since_def)

lemma sent_since_same: "requests s' = requests s \<Longrightarrow> sent_since s s' = []"
  by (simp add: sent_since_def)

lemma ccm_sent_wastes:
  assumes v: "find_or_create_vessel self (vessel_name md) = Some vessel" "vessel \<noteq> []"
  shows "\<exists>ws. requests (snd (create_compliance_manifest backend md self)) =
       requests self @ post ''/compliances'' (compliance_data self md vessel) # ws \<and>
     length ws \<le> 4 \<and> list_all is_waste_request ws \<and>
     (\<not> compliance_created (fst (backend (server self)
          (post ''/compliances'' (compliance_data self md vessel)))) \<longrightarrow> ws = [])"
proof -
  define rq where "rq = post ''/compliances'' (compliance_data self md vessel)"
  define s1 where "s1 = self\<lparr>server := snd (backend (server self) rq), requests := requests self @ [rq]\<rparr>"
  show ?thesis
  proof (cases "compliance_created (fst (backend (server self) rq))")
    case True
    from ccm_created [where backend = backend, OF v True [unfolded rq_def]] obtain cid where
      c: "snd (create_compliance_manifest backend md self) = snd (create_wastes backend md vessel cid s1)"
      unfolding s1_def rq_def by force
    from create_wastes_step [of s1 backend md vessel cid]
    obtain ws where ws: "requests (snd (create_wastes backend md vessel cid s1)) = requests s1 @ ws"
      "length ws \<le> 4" "list_all is_waste_request ws" by (auto simp: wastes_sent_def)
    have A: "requests (snd (create_compliance_manifest backend md self)) = requests self @ rq # ws"
      unfolding c using ws(1) by (simp add: s1_def)
    have D: "\<not> compliance_created (fst (backend (server self) rq)) \<longrightarrow> ws = []"
      using True by simp
    show ?thesis unfolding rq_def [symmetric]
      by (rule exI [of _ ws], intro conjI, rule A, rule ws(2), rule ws(3), rule D)
  next
    case False
    have "create_compliance_manifest backend md self = (False, s1)"
      unfolding s1_def rq_def
      by (rule ccm_not_created [where backend = backend, OF v False [unfolded rq_def]])
    then have A: "requests (snd (create_compliance_manifest backend md self)) = requests self @ rq # []"
      by (simp add: s1_def)
    have B: "length ([] :: request list) \<le> 4" by simp
    have C: "list_all is_waste_request []" by simp
    have D: "\<not> compliance_created (fst (backend (server self) rq)) \<longrightarrow> ([] :: request list) = []"
      by simp
    show ?thesis unfolding rq_def [symmetric]
      by (rule exI [of _ "[]"], intro conjI, rule A, rule B, rule C, rule D)
  qed
qed

lemma ccm_sent:
  assumes v: "find_or_create_vessel self (vessel_name md) = Some vessel" "vessel \<noteq> []"
  shows "\<exists>ws. requests (snd (create_compliance_manifest backend md self)) =
     requests self @ post ''/compliances'' (compliance_data self md vessel) # ws"
  using ccm_sent_wastes [where backend = backend, OF v] by blast

lemma ccm_requests:
  "\<exists>new. requests (snd (create_compliance_manifest backend md self)) = requests self @ new \<and>
     compliance_first backend (server self) new"
proof (cases "falsy_dict (find_or_create_vessel self (vessel_name md))")
  case True
  have A: "requests (snd (create_compliance_manifest backend md self)) = requests self @ []"
    using True by (simp add: ccm_no_vessel)
  have B: "compliance_first backend (server self) []"
    by (simp add: compliance_first_def)
  show ?thesis by (rule exI [of _ "[]"], rule conjI, rule A, rule B)
next
  case False
  then obtain vessel where v: "find_or_create_vessel self (vessel_name md) = Some vessel" "vessel \<noteq> []"
    by (auto simp: falsy_dict_def split: option.splits)
  define rq where "rq = post ''/compliances'' (compliance_data self md vessel)"
  from ccm_sent_wastes [where backend = backend, OF v] obtain ws where
    ws: "requests (snd (create_compliance_manifest backend md self)) = requests self @ rq # ws"
      "length ws \<le> 4" "list_all is_waste_request ws"
      "\<not> compliance_created (fst (backend (server self) rq)) \<longrightarrow> ws = []"
    unfolding rq_def by blast
  have rq: "is_compliance_request rq" by (simp add: is_compliance_request_def post_def rq_def)
  have B: "compliance_first backend (server self) (rq # ws)"
    using rq ws(2,3,4) by (simp add: compliance_first_def)
  show ?thesis by (rule exI [of _ "rq # ws"], rule conjI, rule ws(1), rule B)
qed

lemma ccm_first_request:
  assumes "sent_since self (snd (create_compliance_manifest backend md self)) = c # ws"
  shows "\<exists>vessel. find_or_create_vessel self (vessel_name md) = Some vessel \<and> vessel \<noteq> [] \<and>
     c = post ''/compliances'' (compliance_data self md vessel)"
proof (cases "falsy_dict (find_or_create_vessel self (vessel_name md))")
  case True
  then have "sent_since self (snd (create_compliance_manifest backend md self)) = []"
    by (simp add: ccm_no_vessel sent_since_def)
  with assms show ?thesis by simp
next
  case False
  then obtain vessel where v: "find_or_create_vessel self (vessel_name md) = Some vessel" "vessel \<noteq> []"
    by (auto simp: falsy_dict_def split: option.splits)
  from ccm_sent [where backend = backend, OF v] obtain ws' where
    "requests (snd (create_compliance_manifest backend md self)) =
       requests self @ post ''/compliances'' (compliance_data self md vessel) # ws'" by blast
  then have "sent_since self (snd (create_compliance_manifest backend md self)) =
      post ''/compliances'' (compliance_data self md vessel) # ws'"
    by (rule sent_since_append)
  with assms have "c = post ''/compliances'' (compliance_data self md vessel)" by simp
  with v show ?thesis by blast
qed

lemma count_processed_simps:
  "requests (count_processed s) = requests s"
  "server (count_processed s) = server s"
  "vessels_cache (count_processed s) = vessels_cache s"
  "persons_cache (count_processed s) = persons_cache s"
  "waste_types_cache (count_processed s) = waste_types_cache s"
  "system_users_cache (count_processed s) = system_users_cache s"
  "stats (count_processed s) = (stats s)\<lparr>processed := processed (stats s) + 1\<rparr>"
  by (simp_all add: count_processed_def)

lemma count_other_simps:
  "requests (count_successful s) = requests s"
  "requests (count_failed s) = requests s"
  "requests (count_skipped s) = requests s"
  "stats (count_successful s) = (stats s)\<lparr>successful := successful (stats s) + 1\<rparr>"
  "stats (count_failed s) = (stats s)\<lparr>failed := failed (stats s) + 1\<rparr>"
  "stats (count_skipped s) = (stats s)\<lparr>skipped := skipped (stats s) + 1\<rparr>"
  by (simp_all add: count_successful_def count_failed_def count_skipped_def)

lemma lookups_count_processed:
  "find_or_create_vessel (count_processed s) n = find_or_create_vessel s n"
  "compliance_data (count_processed s) md v = compliance_data s md v"
  by (simp_all add: find_or_create_vessel_def compliance_data_def find_or_create_person_def
      get_default_inspector_def count_processed_simps)

lemma sent_since_count_processed: "sent_since (count_processed s) s' = sent_since s s'"
  by (simp add: sent_since_def count_processed_simps)

text \<open>The three ways a row ends.\<close>

lemma process_row_raise:
  "parse_row now r = Inl e \<Longrightarrow> process_row backend now r self = count_failed (count_processed self)"
  by (simp add: process_row_def)

lemma process_row_skip:
  "no_waste_reported now r \<Longrightarrow> process_row backend now r self = count_skipped (count_processed self)"
  by (auto simp: process_row_def no_waste_reported_def split: sum.splits)

lemma process_row_submit:
  assumes "parse_row now r = Inr md" "\<not> no_waste_reported now r"
  shows "process_row backend now r self =
     (if fst (create_compliance_manifest backend md (count_processed self))
      then count_successful (snd (create_compliance_manifest backend md (count_processed self)))
      else count_failed (snd (create_compliance_manifest backend md (count_processed self))))"
  using assms by (simp add: process_row_def no_waste_reported_def split: prod.splits)


subsection \<open>The loop over the rows\<close>

lemma process_row_cases:
  obtains (raise) e where "parse_row now r = Inl e"
      "process_row backend now r self = count_failed (count_processed self)"
  | (skip) "no_waste_reported now r"
      "process_row backend now r self = count_skipped (count_processed self)"
  | (success) md where "parse_row now r = Inr md" "\<not> no_waste_reported now r"
      "fst (create_compliance_manifest backend md (count_processed self))"
      "process_row backend now r self =
         count_successful (snd (create_compliance_manifest backend md (count_processed self)))"
  | (failure) md where "parse_row now r = Inr md" "\<not> no_waste_reported now r"
      "\<not> fst (create_compliance_manifest backend md (count_processed self))"
      "process_row backend now r self =
         count_failed (snd (create_compliance_manifest backend md (count_processed self)))"
proof (cases "parse_row now r")
  case (Inl e)
  then show ?thesis using raise process_row_raise by blast
next
  case (Inr md)
  show ?thesis
  proof (cases "no_waste_reported now r")
    case True
    then show ?thesis using skip process_row_skip by blast
  next
    case False
    show ?thesis
    proof (cases "fst (create_compliance_manifest backend md (count_processed self))")
      case True
      then show ?thesis
        using success [OF Inr False] process_row_submit [OF Inr False, of backend self] by simp
    next
      case f: False
      then show ?thesis
        using failure [OF Inr False] process_row_submit [OF Inr False, of backend self] by simp
    qed
  qed
qed

lemma process_row_stats:
  "stats (process_row backend now r self) =
     (case parse_row now r of
        Inl e \<Rightarrow> (stats self)\<lparr>processed := processed (stats self) + 1, failed := failed (stats self) + 1\<rparr>
      | Inr md \<Rightarrow>
          if no_waste_reported now r
          then (stats self)\<lparr>processed := processed (stats self) + 1, skipped := skipped (stats self) + 1\<rparr>
          else if fst (create_compliance_manifest backend md (count_processed self))
          then (stats self)\<lparr>processed := processed (stats self) + 1, successful := successful (stats self) + 1\<rparr>
          else (stats self)\<lparr>processed := processed (stats self) + 1, failed := failed (stats self) + 1\<rparr>)"
proof (cases rule: process_row_cases [of now r backend self])
  case (raise e)
  then show ?thesis by (simp add: count_other_simps count_processed_simps)
next
  case skip
  then show ?thesis
    by (auto simp: count_other_simps count_processed_simps no_waste_reported_def split: sum.splits)
next
  case (success md)
  then show ?thesis by (simp add: count_other_simps count_processed_simps ccm_stats)
next
  case (failure md)
  then show ?thesis by (simp add: count_other_simps count_processed_simps ccm_stats)
qed

lemma process_row_counters: "counters_add_up (stats self) \<Longrightarrow>
   counters_add_up (stats (process_row backend now r self))"
  by (simp add: process_row_stats counters_add_up_def split: sum.splits)

lemma process_rows_counters: "counters_add_up (stats self) \<Longrightarrow>
   counters_add_up (stats (process_rows backend rows self))"
proof (induction rows arbitrary: self)
  case Nil
  then show ?case by simp
next
  case (Cons a rows)
  obtain now r where a: "a = (now, r)" by (cases a)
  show ?case unfolding a process_rows.simps
    by (rule Cons.IH, rule process_row_counters, rule Cons.prems)
qed

text \<open>
  Claim C10. Every turn of the loop adds one to \<^verbatim>\<open>processed\<close> and one to exactly one of
  \<^verbatim>\<open>successful\<close>, \<^verbatim>\<open>failed\<close> and \<^verbatim>\<open>skipped\<close>; a row that raises is counted as failed. So
  \<^verbatim>\<open>processed = successful + failed + skipped\<close> holds after every turn when it holds
  before the loop, and it holds from the counters of a new digitizer.
\<close>

theorem counters_add_up_after_each_row:
  "processed (stats (process_row backend now r self)) = processed (stats self) + 1 \<and>
   ((successful (stats (process_row backend now r self)) = successful (stats self) + 1 \<and>
     failed (stats (process_row backend now r self)) = failed (stats self) \<and>
     skipped (stats (process_row backend now r self)) = skipped (stats self)) \<or>
    (successful (stats (process_row backend now r self)) = successful (stats self) \<and>
     failed (stats (process_row backend now r self)) = failed (stats self) + 1 \<and>
     skipped (stats (process_row backend now r self)) = skipped (stats self)) \<or>
    (successful (stats (process_row backend now r self)) = successful (stats self) \<and>
     failed (stats (process_row backend now r self)) = failed (stats self) \<and>
     skipped (stats (process_row backend now r self)) = skipped (stats self) + 1)) \<and>
   ((\<exists>e. parse_row now r = Inl e) \<longrightarrow>
      failed (stats (process_row backend now r self)) = failed (stats self) + 1) \<and>
   (counters_add_up (stats self) \<longrightarrow>
      (\<forall>n. counters_add_up (stats (process_rows backend (take n rows) self)))) \<and>
   (\<forall>n. counters_add_up (stats (process_rows backend (take n rows) (init b))))"
proof (intro conjI impI allI)
  show "processed (stats (process_row backend now r self)) = processed (stats self) + 1"
    by (simp add: process_row_stats split: sum.splits)
  show "(successful (stats (process_row backend now r self)) = successful (stats self) + 1 \<and>
     failed (stats (process_row backend now r self)) = failed (stats self) \<and>
     skipped (stats (process_row backend now r self)) = skipped (stats self)) \<or>
    (successful (stats (process_row backend now r self)) = successful (stats self) \<and>
     failed (stats (process_row backend now r self)) = failed (stats self) + 1 \<and>
     skipped (stats (process_row backend now r self)) = skipped (stats self)) \<or>
    (successful (stats (process_row backend now r self)) = successful (stats self) \<and>
     failed (stats (process_row backend now r self)) = failed (stats self) \<and>
     skipped (stats (process_row backend now r self)) = skipped (stats self) + 1)"
    by (simp add: process_row_stats split: sum.splits)
next
  assume "\<exists>e. parse_row now r = Inl e"
  then show "failed (stats (process_row backend now r self)) = failed (stats self) + 1"
    by (auto simp: process_row_stats)
next
  fix n
  assume "counters_add_up (stats self)"
  then show "counters_add_up (stats (process_rows backend (take n rows) self))"
    by (rule process_rows_counters)
next
  fix n
  have "counters_add_up (stats (init b))"
    by (simp add: counters_add_up_def init_def)
  then show "counters_add_up (stats (process_rows backend (take n rows) (init b)))"
    by (rule process_rows_counters)
qed

theorem counters_add_up_after_each_row_witness:
  "parse_row ''NOW'' broken_row = Inl KeyError \<and>
   stats (process_row ex_backend ''NOW'' broken_row ex_self) =
     \<lparr>processed = 1, successful = 0, failed = 1, skipped = 0\<rparr> \<and>
   counters_add_up (stats ex_self) \<and>
   counters_add_up (stats (process_rows ex_backend
     [(''NOW'', ex_row), (''NOW'', idle_row), (''NOW'', broken_row)] ex_self)) \<and>
   stats (process_rows ex_backend
     [(''NOW'', ex_row), (''NOW'', idle_row), (''NOW'', broken_row)] ex_self) =
     \<lparr>processed = 3, successful = 1, failed = 1, skipped = 1\<rparr>"
proof -
  have 1: "parse_row ''NOW'' broken_row = Inl KeyError" by code_simp
  have 2: "stats (process_row ex_backend ''NOW'' broken_row ex_self) =
     \<lparr>processed = 1, successful = 0, failed = 1, skipped = 0\<rparr>" by code_simp
  have 3: "counters_add_up (stats ex_self)" by code_simp
  have 4: "stats (process_rows ex_backend
     [(''NOW'', ex_row), (''NOW'', idle_row), (''NOW'', broken_row)] ex_self) =
     \<lparr>processed = 3, successful = 1, failed = 1, skipped = 1\<rparr>" by code_simp
  have 5: "take 3 [(''NOW'', ex_row), (''NOW'', idle_row), (''NOW'', broken_row)] =
     [(''NOW'', ex_row), (''NOW'', idle_row), (''NOW'', broken_row)]" by simp
  from counters_add_up_after_each_row
    [of ex_backend "''NOW''" broken_row ex_self
        "[(''NOW'', ex_row), (''NOW'', idle_row), (''NOW'', broken_row)]" 0]
  have "counters_add_up (stats (process_rows ex_backend
     (take 3 [(''NOW'', ex_row), (''NOW'', idle_row), (''NOW'', broken_row)]) ex_self))"
    using 1 3 by blast
  then show ?thesis using 1 2 3 4 unfolding 5 by simp
qed

lemma process_row_requests_unsent:
  "parse_row now r = Inl e \<or> no_waste_reported now r \<Longrightarrow>
   requests (process_row backend now r self) = requests self"
  by (auto simp: process_row_raise process_row_skip count_other_simps count_processed_simps)

text \<open>
  Claim C4. A row whose manifest data is built (its nine columns are there) and whose four
  quantities are all zero is skipped: \<^verbatim>\<open>skipped\<close> grows by one, \<^verbatim>\<open>successful\<close> and \<^verbatim>\<open>failed\<close>
  stay, and no request is sent.
\<close>

theorem zero_waste_row_skipped:
  assumes "parse_row now r = Inr md"
    and "oil_used md = 0" "oil_filters_used md = 0" "diesel_filters_used md = 0" "junk_reported md = 0"
  shows "skipped (stats (process_row backend now r self)) = skipped (stats self) + 1 \<and>
     successful (stats (process_row backend now r self)) = successful (stats self) \<and>
     failed (stats (process_row backend now r self)) = failed (stats self) \<and>
     requests (process_row backend now r self) = requests self"
proof -
  have n: "no_waste_reported now r" using assms by (simp add: no_waste_reported_def)
  then have "process_row backend now r self = count_skipped (count_processed self)"
    by (rule process_row_skip)
  then show ?thesis by (simp add: count_other_simps count_processed_simps)
qed

theorem zero_waste_row_skipped_witness:
  "parse_row ''NOW'' idle_row =
     Inr \<lparr>vessel_name = ''Atlantic Star'', inspection_date = ''2024-01-11T00:00:00+00:00'',
       oil_used = 0, oil_filters_used = 0, diesel_filters_used = 0, junk_reported = 0,
       captain_name = ''John Doe'', chef_name = [],
       observations = ''Digitized from physical manifest ID: 8''\<rparr> \<and>
   skipped (stats (process_row ex_backend ''NOW'' idle_row ex_self)) = 1 \<and>
   successful (stats (process_row ex_backend ''NOW'' idle_row ex_self)) = 0 \<and>
   failed (stats (process_row ex_backend ''NOW'' idle_row ex_self)) = 0 \<and>
   requests (process_row ex_backend ''NOW'' idle_row ex_self) = []"
proof -
  define md where "md = \<lparr>vessel_name = ''Atlantic Star'', inspection_date = ''2024-01-11T00:00:00+00:00'',
     oil_used = 0, oil_filters_used = 0, diesel_filters_used = 0, junk_reported = 0,
     captain_name = ''John Doe'', chef_name = [],
     observations = ''Digitized from physical manifest ID: 8''\<rparr>"
  have p: "parse_row ''NOW'' idle_row = Inr md" unfolding md_def by code_simp
  have z: "oil_used md = 0" "oil_filters_used md = 0" "diesel_filters_used md = 0" "junk_reported md = 0"
    by (simp_all add: md_def)
  have s: "stats ex_self = \<lparr>processed = 0, successful = 0, failed = 0, skipped = 0\<rparr>"
    "requests ex_self = []" by (simp_all add: ex_self_def init_def)
  from zero_waste_row_skipped [OF p z, of ex_backend ex_self] p s
  show ?thesis unfolding md_def by simp
qed

text \<open>
  Claim C3, amended. For a row whose vessel name is not in the vessel cache no request is
  sent and the row is never counted successful. It is counted failed, except when no waste
  is reported: the test for zero waste comes before the lookup of the vessel, and then the
  row is counted skipped.
\<close>

theorem unresolved_vessel_sends_nothing:
  assumes "\<And>v. row_get r ''Vessel Name'' = Inr v \<Longrightarrow>
      find_or_create_vessel self (strip (py_str v)) = None"
  shows "requests (process_row backend now r self) = requests self \<and>
     processed (stats (process_row backend now r self)) = processed (stats self) + 1 \<and>
     successful (stats (process_row backend now r self)) = successful (stats self) \<and>
     (if no_waste_reported now r
      then skipped (stats (process_row backend now r self)) = skipped (stats self) + 1 \<and>
           failed (stats (process_row backend now r self)) = failed (stats self)
      else failed (stats (process_row backend now r self)) = failed (stats self) + 1 \<and>
           skipped (stats (process_row backend now r self)) = skipped (stats self))"
proof (cases rule: process_row_cases [of now r backend self])
  case (raise e)
  then show ?thesis
    by (simp add: count_other_simps count_processed_simps no_waste_reported_def)
next
  case skip
  then show ?thesis by (simp add: count_other_simps count_processed_simps)
next
  case (success md)
  from success(1) obtain v where v: "row_get r ''Vessel Name'' = Inr v" "vessel_name md = strip (py_str v)"
    by (auto simp: parse_row_def bind_err_def split: sum.splits)
  have "find_or_create_vessel (count_processed self) (vessel_name md) = None"
    using assms [OF v(1)] v(2) by (simp add: lookups_count_processed)
  then have "create_compliance_manifest backend md (count_processed self) = (False, count_processed self)"
    by (intro ccm_no_vessel) (simp add: falsy_dict_def)
  with success(3) show ?thesis by simp
next
  case (failure md)
  from failure(1) obtain v where v: "row_get r ''Vessel Name'' = Inr v" "vessel_name md = strip (py_str v)"
    by (auto simp: parse_row_def bind_err_def split: sum.splits)
  have "find_or_create_vessel (count_processed self) (vessel_name md) = None"
    using assms [OF v(1)] v(2) by (simp add: lookups_count_processed)
  then have "create_compliance_manifest backend md (count_processed self) = (False, count_processed self)"
    by (intro ccm_no_vessel) (simp add: falsy_dict_def)
  with failure(2,4) show ?thesis by (simp add: count_other_simps count_processed_simps)
qed

theorem unresolved_vessel_sends_nothing_witness:
  "find_or_create_vessel ex_self ''Ghost'' = None \<and>
   requests (process_row ex_backend ''NOW'' ghost_row ex_self) = [] \<and>
   failed (stats (process_row ex_backend ''NOW'' ghost_row ex_self)) = 1 \<and>
   skipped (stats (process_row ex_backend ''NOW'' ghost_row ex_self)) = 0"
proof -
  have g: "row_get ghost_row ''Vessel Name'' = Inr (Text ''Ghost'')" by code_simp
  have f: "find_or_create_vessel ex_self (strip (py_str (Text ''Ghost''))) = None" by code_simp
  have f': "find_or_create_vessel ex_self ''Ghost'' = None" by code_simp
  have n: "\<not> no_waste_reported ''NOW'' ghost_row" by code_simp
  have s: "stats ex_self = \<lparr>processed = 0, successful = 0, failed = 0, skipped = 0\<rparr>"
    "requests ex_self = []" by (simp_all add: ex_self_def init_def)
  have h: "\<And>v. row_get ghost_row ''Vessel Name'' = Inr v \<Longrightarrow>
      find_or_create_vessel ex_self (strip (py_str v)) = None"
    using g f by simp
  from unresolved_vessel_sends_nothing [of ghost_row ex_self ex_backend "''NOW''", OF h] n s f'
  show ?thesis by simp
qed

text \<open>
  Claim C3 as stated fails: a row of an unknown vessel that reports no waste leaves
  \<^verbatim>\<open>failed\<close> as it is and is counted skipped.
\<close>

theorem unresolved_vessel_not_failed_counterexample:
  "find_or_create_vessel (init (0::nat)) ''Ghost'' = None \<and>
   row_get idle_ghost_row ''Vessel Name'' = Inr (Text ''Ghost'') \<and>
   failed (stats (process_row ex_backend ''NOW'' idle_ghost_row (init 0))) = failed (stats (init (0::nat))) \<and>
   skipped (stats (process_row ex_backend ''NOW'' idle_ghost_row (init 0))) = skipped (stats (init (0::nat))) + 1"
  by code_simp

lemma process_row_sent:
  "\<exists>new. requests (process_row backend now r self) = requests self @ new \<and>
     compliance_first backend (server self) new"
proof (cases rule: process_row_cases [of now r backend self])
  case (raise e)
  have A: "requests (process_row backend now r self) = requests self @ []"
    using raise by (simp add: count_other_simps count_processed_simps)
  have B: "compliance_first backend (server self) []" by (simp add: compliance_first_def)
  show ?thesis by (rule exI [of _ "[]"], rule conjI, rule A, rule B)
next
  case skip
  have A: "requests (process_row backend now r self) = requests self @ []"
    using skip by (simp add: count_other_simps count_processed_simps)
  have B: "compliance_first backend (server self) []" by (simp add: compliance_first_def)
  show ?thesis by (rule exI [of _ "[]"], rule conjI, rule A, rule B)
next
  case (success md)
  from ccm_requests [of backend md "count_processed self"] obtain new where
    n: "requests (snd (create_compliance_manifest backend md (count_processed self))) =
          requests (count_processed self) @ new"
       "compliance_first backend (server (count_processed self)) new" by blast
  have A: "requests (process_row backend now r self) = requests self @ new"
    using success(4) n(1) by (simp add: count_other_simps count_processed_simps)
  have B: "compliance_first backend (server self) new"
    using n(2) by (simp add: count_processed_simps)
  show ?thesis by (rule exI [of _ new], rule conjI, rule A, rule B)
next
  case (failure md)
  from ccm_requests [of backend md "count_processed self"] obtain new where
    n: "requests (snd (create_compliance_manifest backend md (count_processed self))) =
          requests (count_processed self) @ new"
       "compliance_first backend (server (count_processed self)) new" by blast
  have A: "requests (process_row backend now r self) = requests self @ new"
    using failure(4) n(1) by (simp add: count_other_simps count_processed_simps)
  have B: "compliance_first backend (server self) new"
    using n(2) by (simp add: count_processed_simps)
  show ?thesis by (rule exI [of _ new], rule conjI, rule A, rule B)
qed

text \<open>
  Claim C2. The requests that a row adds to those sent before are none, or one compliance
  request followed by at most four waste requests; and no waste request follows when the
  compliance creation fails (no response, no success indicator, or no compliance
  identifier).
\<close>

theorem compliance_before_wastes:
  "requests (process_row backend now r self) =
     requests self @ sent_since self (process_row backend now r self) \<and>
   compliance_first backend (server self) (sent_since self (process_row backend now r self))"
proof -
  from process_row_sent [of backend now r self] obtain new where
    n: "requests (process_row backend now r self) = requests self @ new"
      "compliance_first backend (server self) new" by blast
  have "sent_since self (process_row backend now r self) = new"
    using n(1) by (rule sent_since_append)
  with n show ?thesis by simp
qed

theorem compliance_before_wastes_witness:
  "sent_since ex_self (process_row ex_backend ''NOW'' ex_row ex_self) =
     [post ''/compliances''
        [(''vesselId'', JInt 3), (''inspectionDate'', JStr ''2024-01-10T00:00:00+00:00''),
         (''observations'', JStr ''Digitized from physical manifest ID: 7''),
         (''systemUserId'', JInt 1), (''signersIds'', JArr [JInt 9])],
      post ''/wastes''
        [(''vesselId'', JInt 3), (''wasteTypeId'', JInt 5), (''quantityGenerated'', JFloat 50),
         (''generationDate'', JStr ''2024-01-10T00:00:00+00:00''), (''complianceId'', JInt 42)]] \<and>
   \<not> compliance_created (fst (down_backend (server ex_self)
       (post ''/compliances''
        [(''vesselId'', JInt 3), (''inspectionDate'', JStr ''2024-01-10T00:00:00+00:00''),
         (''observations'', JStr ''Digitized from physical manifest ID: 7''),
         (''systemUserId'', JInt 1), (''signersIds'', JArr [JInt 9])]))) \<and>
   sent_since ex_self (process_row down_backend ''NOW'' ex_row ex_self) =
     [post ''/compliances''
        [(''vesselId'', JInt 3), (''inspectionDate'', JStr ''2024-01-10T00:00:00+00:00''),
         (''observations'', JStr ''Digitized from physical manifest ID: 7''),
         (''systemUserId'', JInt 1), (''signersIds'', JArr [JInt 9])]] \<and>
   compliance_first ex_backend (server ex_self)
     (sent_since ex_self (process_row ex_backend ''NOW'' ex_row ex_self)) \<and>
   compliance_first down_backend (server ex_self)
     (sent_since ex_self (process_row down_backend ''NOW'' ex_row ex_self))"
proof -
  have 1: "sent_since ex_self (process_row ex_backend ''NOW'' ex_row ex_self) =
     [post ''/compliances''
        [(''vesselId'', JInt 3), (''inspectionDate'', JStr ''2024-01-10T00:00:00+00:00''),
         (''observations'', JStr ''Digitized from physical manifest ID: 7''),
         (''systemUserId'', JInt 1), (''signersIds'', JArr [JInt 9])],
      post ''/wastes''
        [(''vesselId'', JInt 3), (''wasteTypeId'', JInt 5), (''quantityGenerated'', JFloat 50),
         (''generationDate'', JStr ''2024-01-10T00:00:00+00:00''), (''complianceId'', JInt 42)]]"
    by code_simp
  have 2: "\<not> compliance_created (fst (down_backend (server ex_self)
       (post ''/compliances''
        [(''vesselId'', JInt 3), (''inspectionDate'', JStr ''2024-01-10T00:00:00+00:00''),
         (''observations'', JStr ''Digitized from physical manifest ID: 7''),
         (''systemUserId'', JInt 1), (''signersIds'', JArr [JInt 9])])))"
    by code_simp
  have 3: "sent_since ex_self (process_row down_backend ''NOW'' ex_row ex_self) =
     [post ''/compliances''
        [(''vesselId'', JInt 3), (''inspectionDate'', JStr ''2024-01-10T00:00:00+00:00''),
         (''observations'', JStr ''Digitized from physical manifest ID: 7''),
         (''systemUserId'', JInt 1), (''signersIds'', JArr [JInt 9])]]"
    by code_simp
  from compliance_before_wastes [of ex_backend "''NOW''" ex_row ex_self]
    compliance_before_wastes [of down_backend "''NOW''" ex_row ex_self] 1 2 3
  show ?thesis by simp
qed

text \<open>
  Claim C6, amended. When the first request of a row (its compliance request) gets a
  response with a success indicator and a compliance identifier, the row is counted
  successful and not failed, whatever the backend answers to the waste requests \<open>ws\<close> that
  follow, as long as each of these answers is no response, a falsy body or a JSON object:
  an absent answer and an answer without success indicator do not change the outcome.
\<close>

theorem created_compliance_counts_successful:
  assumes "sent_since self (process_row backend now r self) = c # ws"
    and "compliance_created (fst (backend (server self) c))"
    and "\<And>b rq. is_waste_request rq \<Longrightarrow> object_or_absent (fst (backend b rq))"
  shows "successful (stats (process_row backend now r self)) = successful (stats self) + 1 \<and>
     failed (stats (process_row backend now r self)) = failed (stats self) \<and>
     skipped (stats (process_row backend now r self)) = skipped (stats self)"
proof (cases rule: process_row_cases [of now r backend self])
  case (raise e)
  then have "sent_since self (process_row backend now r self) = []"
    by (simp add: sent_since_def count_other_simps count_processed_simps)
  with assms(1) show ?thesis by simp
next
  case skip
  then have "sent_since self (process_row backend now r self) = []"
    by (simp add: sent_since_def count_other_simps count_processed_simps)
  with assms(1) show ?thesis by simp
next
  case (success md)
  then show ?thesis by (simp add: count_other_simps count_processed_simps ccm_stats)
next
  case (failure md)
  have "sent_since (count_processed self) (snd (create_compliance_manifest backend md (count_processed self))) = c # ws"
    using assms(1) failure(4) by (simp add: sent_since_def count_other_simps count_processed_simps)
  from ccm_first_request [OF this] obtain vessel where
    v: "find_or_create_vessel (count_processed self) (vessel_name md) = Some vessel" "vessel \<noteq> []"
    and c: "c = post ''/compliances'' (compliance_data (count_processed self) md vessel)" by blast
  have "compliance_created (fst (backend (server (count_processed self))
      (post ''/compliances'' (compliance_data (count_processed self) md vessel))))"
    using assms(2) c by (simp add: count_processed_simps)
  with v have "fst (create_compliance_manifest backend md (count_processed self))"
    using assms(3) by (rule ccm_success)
  with failure(3) show ?thesis by simp
qed

theorem created_compliance_counts_successful_witness:
  "sent_since ex_self (process_row ex_backend ''NOW'' ex_row ex_self) =
     [post ''/compliances''
        [(''vesselId'', JInt 3), (''inspectionDate'', JStr ''2024-01-10T00:00:00+00:00''),
         (''observations'', JStr ''Digitized from physical manifest ID: 7''),
         (''systemUserId'', JInt 1), (''signersIds'', JArr [JInt 9])],
      post ''/wastes''
        [(''vesselId'', JInt 3), (''wasteTypeId'', JInt 5), (''quantityGenerated'', JFloat 50),
         (''generationDate'', JStr ''2024-01-10T00:00:00+00:00''), (''complianceId'', JInt 42)]] \<and>
   fst (ex_backend 1 (post ''/wastes''
        [(''vesselId'', JInt 3), (''wasteTypeId'', JInt 5), (''quantityGenerated'', JFloat 50),
         (''generationDate'', JStr ''2024-01-10T00:00:00+00:00''), (''complianceId'', JInt 42)])) = None \<and>
   successful (stats (process_row ex_backend ''NOW'' ex_row ex_self)) = 1 \<and>
   failed (stats (process_row ex_backend ''NOW'' ex_row ex_self)) = 0"
proof -
  have 1: "sent_since ex_self (process_row ex_backend ''NOW'' ex_row ex_self) =
     [post ''/compliances''
        [(''vesselId'', JInt 3), (''inspectionDate'', JStr ''2024-01-10T00:00:00+00:00''),
         (''observations'', JStr ''Digitized from physical manifest ID: 7''),
         (''systemUserId'', JInt 1), (''signersIds'', JArr [JInt 9])],
      post ''/wastes''
        [(''vesselId'', JInt 3), (''wasteTypeId'', JInt 5), (''quantityGenerated'', JFloat 50),
         (''generationDate'', JStr ''2024-01-10T00:00:00+00:00''), (''complianceId'', JInt 42)]]"
    by code_simp
  have 2: "compliance_created (fst (ex_backend (server ex_self)
       (post ''/compliances''
        [(''vesselId'', JInt 3), (''inspectionDate'', JStr ''2024-01-10T00:00:00+00:00''),
         (''observations'', JStr ''Digitized from physical manifest ID: 7''),
         (''systemUserId'', JInt 1), (''signersIds'', JArr [JInt 9])])))"
    by code_simp
  have 3: "fst (ex_backend 1 (post ''/wastes''
        [(''vesselId'', JInt 3), (''wasteTypeId'', JInt 5), (''quantityGenerated'', JFloat 50),
         (''generationDate'', JStr ''2024-01-10T00:00:00+00:00''), (''complianceId'', JInt 42)])) = None"
    by code_simp
  have s: "stats ex_self = \<lparr>processed = 0, successful = 0, failed = 0, skipped = 0\<rparr>"
    by (simp add: ex_self_def init_def)
  have h: "\<And>b rq. is_waste_request rq \<Longrightarrow> object_or_absent (fst (ex_backend b rq))"
    by (simp add: is_waste_request_def ex_backend_def object_or_absent_def response_ok_def)
  from created_compliance_counts_successful [OF 1 2 h] 1 3 s
  show ?thesis by simp
qed

text \<open>
  Claim C6 as stated fails: when the backend answers the waste request with the JSON list
  \<^verbatim>\<open>[1]\<close>, the row whose compliance was created is counted failed and not successful.
\<close>

theorem waste_answer_list_counterexample:
  "sent_since ex_self (process_row list_backend ''NOW'' ex_row ex_self) =
     [post ''/compliances''
        [(''vesselId'', JInt 3), (''inspectionDate'', JStr ''2024-01-10T00:00:00+00:00''),
         (''observations'', JStr ''Digitized from physical manifest ID: 7''),
         (''systemUserId'', JInt 1), (''signersIds'', JArr [JInt 9])],
      post ''/wastes''
        [(''vesselId'', JInt 3), (''wasteTypeId'', JInt 5), (''quantityGenerated'', JFloat 50),
         (''generationDate'', JStr ''2024-01-10T00:00:00+00:00''), (''complianceId'', JInt 42)]] \<and>
   compliance_created (fst (list_backend (server ex_self)
       (post ''/compliances''
        [(''vesselId'', JInt 3), (''inspectionDate'', JStr ''2024-01-10T00:00:00+00:00''),
         (''observations'', JStr ''Digitized from physical manifest ID: 7''),
         (''systemUserId'', JInt 1), (''signersIds'', JArr [JInt 9])]))) \<and>
   fst (list_backend 1 (post ''/wastes''
        [(''vesselId'', JInt 3), (''wasteTypeId'', JInt 5), (''quantityGenerated'', JFloat 50),
         (''generationDate'', JStr ''2024-01-10T00:00:00+00:00''), (''complianceId'', JInt 42)])) =
     Some (JArr [JInt 1]) \<and>
   successful (stats (process_row list_backend ''NOW'' ex_row ex_self)) = successful (stats ex_self) \<and>
   failed (stats (process_row list_backend ''NOW'' ex_row ex_self)) = failed (stats ex_self) + 1"
  by code_simp


subsection \<open>Signers and identifiers\<close>

lemma signer_id_none: "\<not> has_identifier person \<Longrightarrow> signer_id person = []"
  by (auto simp: has_identifier_def signer_id_def Let_def split: option.splits)

lemma dict_get_signers:
  "dict_get (compliance_data self md vessel) ''signersIds'' =
     JArr (collect_signers (find_or_create_person self (captain_name md) ''Captain'')
            (find_or_create_person self (chef_name md) ''Chef''))"
  by (simp add: compliance_data_def dict_get_def Let_def)

text \<open>
  Claim C5. When neither the captain nor the chef of the manifest resolves to a cached
  person with an identifier, the compliance request that is sent carries
  \<^verbatim>\<open>signersIds = [1]\<close>, the default signer alone.
\<close>

theorem default_signer_when_none_found:
  assumes "sent_since self (snd (create_compliance_manifest backend md self)) = c # ws"
    and "\<not> has_identifier (find_or_create_person self (captain_name md) ''Captain'')"
    and "\<not> has_identifier (find_or_create_person self (chef_name md) ''Chef'')"
  shows "\<exists>body. c = post ''/compliances'' body \<and> dict_get body ''signersIds'' = JArr [JInt 1]"
proof -
  from ccm_first_request [OF assms(1)] obtain vessel where
    c: "c = post ''/compliances'' (compliance_data self md vessel)" by blast
  have "dict_get (compliance_data self md vessel) ''signersIds'' = JArr [JInt 1]"
    using assms(2,3) by (simp add: dict_get_signers collect_signers_def signer_id_none)
  with c show ?thesis by blast
qed

theorem default_signer_when_none_found_witness:
  "\<not> has_identifier (find_or_create_person ex_self (captain_name ex_md) ''Captain'') \<and>
   \<not> has_identifier (find_or_create_person ex_self (chef_name ex_md) ''Chef'') \<and>
   sent_since ex_self (snd (create_compliance_manifest down_backend ex_md ex_self)) =
     [post ''/compliances''
        [(''vesselId'', JInt 3), (''inspectionDate'', JStr ''2024-01-10T00:00:00+00:00''),
         (''observations'', JStr ''Digitized from physical manifest ID: 7''),
         (''systemUserId'', JInt 1), (''signersIds'', JArr [JInt 1])]]"
proof -
  have 1: "\<not> has_identifier (find_or_create_person ex_self (captain_name ex_md) ''Captain'')"
    by code_simp
  have 2: "\<not> has_identifier (find_or_create_person ex_self (chef_name ex_md) ''Chef'')"
    by code_simp
  have 3: "sent_since ex_self (snd (create_compliance_manifest down_backend ex_md ex_self)) =
     [post ''/compliances''
        [(''vesselId'', JInt 3), (''inspectionDate'', JStr ''2024-01-10T00:00:00+00:00''),
         (''observations'', JStr ''Digitized from physical manifest ID: 7''),
         (''systemUserId'', JInt 1), (''signersIds'', JArr [JInt 1])]]"
    by code_simp
  from default_signer_when_none_found [OF 3 1 2] 1 2 3
  show ?thesis by simp
qed


subsection \<open>The bootstrap pass\<close>

lemma create_person_batch_eq:
  "create_person_batch backend name t c self =
     (created_entity (fst (backend (server self) (post ''/persons'' (person_data name t c)))),
      self\<lparr>server := snd (backend (server self) (post ''/persons'' (person_data name t c))),
           requests := requests self @ [post ''/persons'' (person_data name t c)]\<rparr>)"
  by (simp add: create_person_batch_def make_request_POST post_def)

lemma create_vessel_batch_eq:
  "create_vessel_batch backend name t oid self =
     (created_entity (fst (backend (server self) (post ''/vessels'' (vessel_data name t oid)))),
      self\<lparr>server := snd (backend (server self) (post ''/vessels'' (vessel_data name t oid))),
           requests := requests self @ [post ''/vessels'' (vessel_data name t oid)]\<rparr>)"
  by (simp add: create_vessel_batch_def make_request_POST post_def)

lemma create_persons_sent:
  "\<exists>new. requests (snd (create_persons backend t c names n self)) = requests self @ new \<and>
     prefix new (map (\<lambda>name. post ''/persons'' (person_data name t c)) names) \<and>
     ((\<exists>m. fst (create_persons backend t c names n self) = Inr m) \<longrightarrow>
        new = map (\<lambda>name. post ''/persons'' (person_data name t c)) names)"
proof (induction names arbitrary: n self)
  case Nil
  show ?case by simp
next
  case (Cons name names)
  define rq where "rq = post ''/persons'' (person_data name t c)"
  define s1 where "s1 = self\<lparr>server := snd (backend (server self) rq), requests := requests self @ [rq]\<rparr>"
  define res where "res = created_entity (fst (backend (server self) rq))"
  have b: "create_person_batch backend name t c self = (res, s1)"
    unfolding res_def s1_def rq_def by (rule create_person_batch_eq)
  show ?case
  proof (cases res)
    case (Inl e)
    have e: "create_persons backend t c (name # names) n self = (Inl e, s1)"
      using b Inl by simp
    have A: "requests (snd (create_persons backend t c (name # names) n self)) = requests self @ [rq]"
      unfolding e by (simp add: s1_def)
    have B: "prefix [rq] (map (\<lambda>name. post ''/persons'' (person_data name t c)) (name # names))"
      by (simp add: rq_def)
    have C: "(\<exists>m. fst (create_persons backend t c (name # names) n self) = Inr m) \<longrightarrow>
        [rq] = map (\<lambda>name. post ''/persons'' (person_data name t c)) (name # names)"
      unfolding e by simp
    show ?thesis by (rule exI [of _ "[rq]"], intro conjI, rule A, rule B, rule C)
  next
    case (Inr person)
    define n' where "n' = (if falsy_dict person then n else n + 1)"
    have e: "create_persons backend t c (name # names) n self = create_persons backend t c names n' s1"
      using b Inr by (simp add: n'_def)
    from Cons.IH [of n' s1] obtain new where
      n: "requests (snd (create_persons backend t c names n' s1)) = requests s1 @ new"
        "prefix new (map (\<lambda>name. post ''/persons'' (person_data name t c)) names)"
        "(\<exists>m. fst (create_persons backend t c names n' s1) = Inr m) \<longrightarrow>
           new = map (\<lambda>name. post ''/persons'' (person_data name t c)) names" by blast
    have A: "requests (snd (create_persons backend t c (name # names) n self)) = requests self @ (rq # new)"
      unfolding e n(1) by (simp add: s1_def)
    have B: "prefix (rq # new) (map (\<lambda>name. post ''/persons'' (person_data name t c)) (name # names))"
      using n(2) by (simp add: rq_def)
    have C: "(\<exists>m. fst (create_persons backend t c (name # names) n self) = Inr m) \<longrightarrow>
        rq # new = map (\<lambda>name. post ''/persons'' (person_data name t c)) (name # names)"
      unfolding e using n(3) by (simp add: rq_def)
    show ?thesis by (rule exI [of _ "rq # new"], intro conjI, rule A, rule B, rule C)
  qed
qed

lemma create_persons_total:
  assumes "\<And>b rq. entity_or_failure (fst (backend b rq))"
  shows "\<exists>m. fst (create_persons backend t c names n self) = Inr m"
proof (induction names arbitrary: n self)
  case Nil
  show ?case by simp
next
  case (Cons name names)
  from assms [of "server self" "post ''/persons'' (person_data name t c)"]
  obtain person where
    "created_entity (fst (backend (server self) (post ''/persons'' (person_data name t c)))) = Inr person"
    by (auto simp: entity_or_failure_def split: sum.splits)
  then show ?case using Cons.IH by (simp add: create_person_batch_eq)
qed

lemma create_vessels_sent:
  "\<exists>new. requests (snd (create_vessels backend t oid names n self)) = requests self @ new \<and>
     prefix new (map (\<lambda>name. post ''/vessels'' (vessel_data name t oid)) names) \<and>
     ((\<exists>m. fst (create_vessels backend t oid names n self) = Inr m) \<longrightarrow>
        new = map (\<lambda>name. post ''/vessels'' (vessel_data name t oid)) names)"
proof (induction names arbitrary: n self)
  case Nil
  show ?case by simp
next
  case (Cons name names)
  define rq where "rq = post ''/vessels'' (vessel_data name t oid)"
  define s1 where "s1 = self\<lparr>server := snd (backend (server self) rq), requests := requests self @ [rq]\<rparr>"
  define res where "res = created_entity (fst (backend (server self) rq))"
  have b: "create_vessel_batch backend name t oid self = (res, s1)"
    unfolding res_def s1_def rq_def by (rule create_vessel_batch_eq)
  show ?case
  proof (cases res)
    case (Inl e)
    have e: "create_vessels backend t oid (name # names) n self = (Inl e, s1)"
      using b Inl by simp
    have A: "requests (snd (create_vessels backend t oid (name # names) n self)) = requests self @ [rq]"
      unfolding e by (simp add: s1_def)
    have B: "prefix [rq] (map (\<lambda>name. post ''/vessels'' (vessel_data name t oid)) (name # names))"
      by (simp add: rq_def)
    have C: "(\<exists>m. fst (create_vessels backend t oid (name # names) n self) = Inr m) \<longrightarrow>
        [rq] = map (\<lambda>name. post ''/vessels'' (vessel_data name t oid)) (name # names)"
      unfolding e by simp
    show ?thesis by (rule exI [of _ "[rq]"], intro conjI, rule A, rule B, rule C)
  next
    case (Inr vessel)
    define n' where "n' = (if falsy_dict vessel then n else n + 1)"
    have e: "create_vessels backend t oid (name # names) n self = create_vessels backend t oid names n' s1"
      using b Inr by (simp add: n'_def)
    from Cons.IH [of n' s1] obtain new where
      n: "requests (snd (create_vessels backend t oid names n' s1)) = requests s1 @ new"
        "prefix new (map (\<lambda>name. post ''/vessels'' (vessel_data name t oid)) names)"
        "(\<exists>m. fst (create_vessels backend t oid names n' s1) = Inr m) \<longrightarrow>
           new = map (\<lambda>name. post ''/vessels'' (vessel_data name t oid)) names" by blast
    have A: "requests (snd (create_vessels backend t oid (name # names) n self)) = requests self @ (rq # new)"
      unfolding e n(1) by (simp add: s1_def)
    have B: "prefix (rq # new) (map (\<lambda>name. post ''/vessels'' (vessel_data name t oid)) (name # names))"
      using n(2) by (simp add: rq_def)
    have C: "(\<exists>m. fst (create_vessels backend t oid (name # names) n self) = Inr m) \<longrightarrow>
        rq # new = map (\<lambda>name. post ''/vessels'' (vessel_data name t oid)) (name # names)"
      unfolding e using n(3) by (simp add: rq_def)
    show ?thesis by (rule exI [of _ "rq # new"], intro conjI, rule A, rule B, rule C)
  qed
qed

lemma create_vessels_total:
  assumes "\<And>b rq. entity_or_failure (fst (backend b rq))"
  shows "\<exists>m. fst (create_vessels backend t oid names n self) = Inr m"
proof (induction names arbitrary: n self)
  case Nil
  show ?case by simp
next
  case (Cons name names)
  from assms [of "server self" "post ''/vessels'' (vessel_data name t oid)"]
  obtain vessel where
    "created_entity (fst (backend (server self) (post ''/vessels'' (vessel_data name t oid)))) = Inr vessel"
    by (auto simp: entity_or_failure_def split: sum.splits)
  then show ?case using Cons.IH by (simp add: create_vessel_batch_eq)
qed

lemma owner_created_Some:
  "owner_created response = Some owner \<longleftrightarrow> created_entity response = Inr (Some owner) \<and> owner \<noteq> []"
  by (auto simp: owner_created_def split: sum.splits option.splits if_splits)



lemma setup_owner_created:
  assumes ue: "unique_entities rows ([], [], []) = Inr (vessels, captains, chefs)"
    and o: "owner_created (fst (backend (server self) owner_request)) = Some owner"
  shows "\<exists>new. requests (snd (setup_base_entities backend set_iter (Inr rows) self)) =
       requests self @ owner_request # new \<and>
     prefix new (bootstrap_requests set_iter (entity_id owner) vessels captains chefs) \<and>
     ((\<forall>b rq. entity_or_failure (fst (backend b rq))) \<longrightarrow>
        new = bootstrap_requests set_iter (entity_id owner) vessels captains chefs)"
proof -
  define A where "A = map (\<lambda>name. post ''/persons'' (person_data name 2 ''Captain'')) (set_iter captains)"
  define B where "B = map (\<lambda>name. post ''/persons'' (person_data name 1 ''Chef'')) (set_iter chefs)"
  define C where "C = map (\<lambda>name. post ''/vessels'' (vessel_data name ''Boat'' (entity_id owner))) (set_iter vessels)"
  have full: "bootstrap_requests set_iter (entity_id owner) vessels captains chefs = A @ B @ C"
    by (simp add: bootstrap_requests_def A_def B_def C_def)
  define s1 where "s1 = self\<lparr>server := snd (backend (server self) owner_request),
                       requests := requests self @ [owner_request]\<rparr>"
  have r1: "requests s1 = requests self @ [owner_request]" by (simp add: s1_def)
  from o have oc: "created_entity (fst (backend (server self) owner_request)) = Inr (Some owner)"
    and ne: "owner \<noteq> []" by (simp_all add: owner_created_Some)
  have ob: "create_person_batch backend ''Unknown Owner'' 3 ''Default vessel owner'' self = (Inr (Some owner), s1)"
    using oc by (simp add: create_person_batch_eq owner_request_def s1_def)
  obtain rA sA where cA: "create_persons backend 2 ''Captain'' (set_iter captains) 0 s1 = (rA, sA)"
    by (cases "create_persons backend 2 ''Captain'' (set_iter captains) 0 s1")
  from create_persons_sent [of backend 2 "''Captain''" "set_iter captains" 0 s1] cA
  obtain newA where nA: "requests sA = requests s1 @ newA" "prefix newA A"
    "(\<exists>m. rA = Inr m) \<longrightarrow> newA = A" unfolding A_def by auto
  have tA: "(\<forall>b rq. entity_or_failure (fst (backend b rq))) \<Longrightarrow> \<exists>m. rA = Inr m"
    using create_persons_total [of backend 2 "''Captain''" "set_iter captains" 0 s1] cA by simp
  show ?thesis
  proof (cases rA)
    case (Inl e)
    have e: "setup_base_entities backend set_iter (Inr rows) self = (Setup_error, sA)"
      using ue ob ne cA Inl by (simp add: setup_base_entities_def)
    have 1: "requests (snd (setup_base_entities backend set_iter (Inr rows) self)) =
        requests self @ owner_request # newA"
      unfolding e using nA(1) r1 by simp
    have 2: "prefix newA (bootstrap_requests set_iter (entity_id owner) vessels captains chefs)"
      unfolding full using nA(2) by (rule prefix_prefix)
    have 3: "(\<forall>b rq. entity_or_failure (fst (backend b rq))) \<longrightarrow>
        newA = bootstrap_requests set_iter (entity_id owner) vessels captains chefs"
      using tA Inl by auto
    show ?thesis by (rule exI [of _ newA], intro conjI, rule 1, rule 2, rule 3)
  next
    case (Inr m1)
    then have fA: "newA = A" using nA(3) by simp
    obtain rB sB where cB: "create_persons backend 1 ''Chef'' (set_iter chefs) 0 sA = (rB, sB)"
      by (cases "create_persons backend 1 ''Chef'' (set_iter chefs) 0 sA")
    from create_persons_sent [of backend 1 "''Chef''" "set_iter chefs" 0 sA] cB
    obtain newB where nB: "requests sB = requests sA @ newB" "prefix newB B"
      "(\<exists>m. rB = Inr m) \<longrightarrow> newB = B" unfolding B_def by auto
    have tB: "(\<forall>b rq. entity_or_failure (fst (backend b rq))) \<Longrightarrow> \<exists>m. rB = Inr m"
      using create_persons_total [of backend 1 "''Chef''" "set_iter chefs" 0 sA] cB by simp
    show ?thesis
    proof (cases rB)
      case (Inl e)
      have e: "setup_base_entities backend set_iter (Inr rows) self = (Setup_error, sB)"
        using ue ob ne cA Inr cB Inl by (simp add: setup_base_entities_def)
      have 1: "requests (snd (setup_base_entities backend set_iter (Inr rows) self)) =
          requests self @ owner_request # (A @ newB)"
        unfolding e using nA(1) nB(1) r1 fA by simp
      have 2: "prefix (A @ newB) (bootstrap_requests set_iter (entity_id owner) vessels captains chefs)"
        unfolding full using nB(2) by (simp add: prefix_prefix)
      have 3: "(\<forall>b rq. entity_or_failure (fst (backend b rq))) \<longrightarrow>
          A @ newB = bootstrap_requests set_iter (entity_id owner) vessels captains chefs"
        using tB Inl by auto
      show ?thesis by (rule exI [of _ "A @ newB"], intro conjI, rule 1, rule 2, rule 3)
    next
      case m2: (Inr m2)
      then have fB: "newB = B" using nB(3) by simp
      obtain rC sC where cC: "create_vessels backend ''Boat'' (entity_id owner) (set_iter vessels) 0 sB = (rC, sC)"
        by (cases "create_vessels backend ''Boat'' (entity_id owner) (set_iter vessels) 0 sB")
      from create_vessels_sent [of backend "''Boat''" "entity_id owner" "set_iter vessels" 0 sB] cC
      obtain newC where nC: "requests sC = requests sB @ newC" "prefix newC C"
        "(\<exists>m. rC = Inr m) \<longrightarrow> newC = C" unfolding C_def by auto
      have tC: "(\<forall>b rq. entity_or_failure (fst (backend b rq))) \<Longrightarrow> \<exists>m. rC = Inr m"
        using create_vessels_total [of backend "''Boat''" "entity_id owner" "set_iter vessels" 0 sB] cC by simp
      have e: "snd (setup_base_entities backend set_iter (Inr rows) self) = sC"
        using ue ob ne cA Inr cB m2 cC by (simp add: setup_base_entities_def split: sum.splits)
      have 1: "requests (snd (setup_base_entities backend set_iter (Inr rows) self)) =
          requests self @ owner_request # (A @ B @ newC)"
        unfolding e using nA(1) nB(1) nC(1) r1 fA fB by simp
      have 2: "prefix (A @ B @ newC) (bootstrap_requests set_iter (entity_id owner) vessels captains chefs)"
        unfolding full using nC(2) by simp
      have 3: "(\<forall>b rq. entity_or_failure (fst (backend b rq))) \<longrightarrow>
          A @ B @ newC = bootstrap_requests set_iter (entity_id owner) vessels captains chefs"
        unfolding full using tC nC(3) by auto
      show ?thesis by (rule exI [of _ "A @ B @ newC"], intro conjI, rule 1, rule 2, rule 3)
    qed
  qed
qed







lemma bootstrap_vessel_owner:
  assumes "rq \<in> set (bootstrap_requests set_iter owner_id vessels captains chefs)"
    and "req_endpoint rq = ''/vessels''"
  shows "\<exists>body. req_data rq = Some body \<and> dict_get body ''ownerId'' = owner_id"
  using assms
  by (auto simp: bootstrap_requests_def post_def vessel_data_def dict_get_def)

text \<open>
  Claim C1, amended. The identifier of a vessel, a signer, the system user and the owner is
  read under \<^verbatim>\<open>ID\<close> and, when that is missing or falsy (null, zero, empty), under \<^verbatim>\<open>id\<close>;
  the identifier of the compliance is read under \<^verbatim>\<open>id\<close> first and \<^verbatim>\<open>ID\<close> second. These are
  the values sent as \<^verbatim>\<open>vesselId\<close>, \<^verbatim>\<open>systemUserId\<close>, \<^verbatim>\<open>signersIds\<close> and \<^verbatim>\<open>ownerId\<close>. The
  identifier of a waste type is read under the lowercase \<^verbatim>\<open>id\<close> only.
\<close>

theorem identifier_casings:
  "entity_id x = (if truthy (dict_get x ''ID'') then dict_get x ''ID'' else dict_get x ''id'') \<and>
   compliance_id_of (JObj x) =
     Inr (if truthy (dict_get x ''id'') then dict_get x ''id'' else dict_get x ''ID'') \<and>
   dict_get (compliance_data self md vessel) ''vesselId'' = entity_id vessel \<and>
   dict_get (compliance_data self md vessel) ''systemUserId'' = entity_id (get_default_inspector self) \<and>
   (x \<noteq> [] \<longrightarrow> signer_id (Some x) = (if truthy (entity_id x) then [entity_id x] else [])) \<and>
   dict_get (waste_data md vessel waste_type quantity cid) ''vesselId'' = entity_id vessel \<and>
   dict_get (waste_data md vessel waste_type quantity cid) ''wasteTypeId'' = dict_get waste_type ''id'' \<and>
   (unique_entities rows ([], [], []) = Inr (vessels, captains, chefs) \<and>
    owner_created (fst (backend (server self) owner_request)) = Some owner \<longrightarrow>
      (\<forall>rq \<in> set (sent_since self (snd (setup_base_entities backend set_iter (Inr rows) self))).
         req_endpoint rq = ''/vessels'' \<longrightarrow>
           (\<exists>body. req_data rq = Some body \<and> dict_get body ''ownerId'' = entity_id owner)))"
proof (intro conjI impI ballI)
  show "entity_id x = (if truthy (dict_get x ''ID'') then dict_get x ''ID'' else dict_get x ''id'')"
    by (simp add: entity_id_def py_or_def)
  show "compliance_id_of (JObj x) =
     Inr (if truthy (dict_get x ''id'') then dict_get x ''id'' else dict_get x ''ID'')"
    by (simp add: compliance_id_of_def json_get_def)
  show "dict_get (compliance_data self md vessel) ''vesselId'' = entity_id vessel"
    by (simp add: compliance_data_def dict_get_def Let_def)
  show "dict_get (compliance_data self md vessel) ''systemUserId'' = entity_id (get_default_inspector self)"
    by (simp add: compliance_data_def dict_get_def Let_def)
  show "dict_get (waste_data md vessel waste_type quantity cid) ''vesselId'' = entity_id vessel"
    by (simp add: waste_data_def dict_get_def)
  show "dict_get (waste_data md vessel waste_type quantity cid) ''wasteTypeId'' = dict_get waste_type ''id''"
    by (simp add: waste_data_def dict_get_def)
next
  assume "x \<noteq> []"
  then show "signer_id (Some x) = (if truthy (entity_id x) then [entity_id x] else [])"
    by (simp add: signer_id_def Let_def)
next
  fix rq
  assume h: "unique_entities rows ([], [], []) = Inr (vessels, captains, chefs) \<and>
    owner_created (fst (backend (server self) owner_request)) = Some owner"
    and rq: "rq \<in> set (sent_since self (snd (setup_base_entities backend set_iter (Inr rows) self)))"
    and ep: "req_endpoint rq = ''/vessels''"
  from h have ue: "unique_entities rows ([], [], []) = Inr (vessels, captains, chefs)"
    and o: "owner_created (fst (backend (server self) owner_request)) = Some owner" by simp_all
  from setup_owner_created [where backend = backend and set_iter = set_iter, OF ue o]
  obtain new where n:
    "requests (snd (setup_base_entities backend set_iter (Inr rows) self)) =
       requests self @ owner_request # new"
    "prefix new (bootstrap_requests set_iter (entity_id owner) vessels captains chefs)" by blast
  have "sent_since self (snd (setup_base_entities backend set_iter (Inr rows) self)) = owner_request # new"
    using n(1) by (rule sent_since_append)
  with rq have "rq = owner_request \<or> rq \<in> set new" by simp
  moreover have "req_endpoint owner_request \<noteq> ''/vessels''"
    by (simp add: owner_request_def post_def)
  ultimately have "rq \<in> set new" using ep by auto
  then have "rq \<in> set (bootstrap_requests set_iter (entity_id owner) vessels captains chefs)"
    using n(2) set_mono_prefix by blast
  then show "\<exists>body. req_data rq = Some body \<and> dict_get body ''ownerId'' = entity_id owner"
    using ep by (rule bootstrap_vessel_owner)
qed

theorem identifier_casings_witness:
  "entity_id [(''id'', JInt 4)] = JInt 4 \<and>
   compliance_id_of (JObj [(''ID'', JInt 42)]) = Inr (JInt 42) \<and>
   signer_id (Some [(''id'', JInt 9)]) = [JInt 9] \<and>
   dict_get (waste_data ex_md [(''id'', JInt 3)] [(''ID'', JInt 5), (''id'', JInt 6)] 50 (JInt 42))
     ''wasteTypeId'' = JInt 6 \<and>
   unique_entities boot_rows ([], [], []) =
     Inr ([''Atlantic Star'', ''Mar Azul'', ''Atlantic Star''],
          [''John Doe'', ''Luis Gil'', ''John Doe''], [''Ana Paz'', ''Ana Paz'']) \<and>
   owner_created (fst (owner_backend (server (init 0)) owner_request)) =
     Some [(''ID'', JInt 1), (''Name'', JStr ''Unknown Owner'')] \<and>
   post ''/vessels'' (vessel_data ''Mar Azul'' ''Boat'' (JInt 1)) \<in>
     set (sent_since (init 0) (snd (setup_base_entities owner_backend remdups (Inr boot_rows) (init 0)))) \<and>
   dict_get (vessel_data ''Mar Azul'' ''Boat'' (JInt 1)) ''ownerId'' =
     entity_id [(''ID'', JInt 1), (''Name'', JStr ''Unknown Owner'')]"
proof -
  have ue: "unique_entities boot_rows ([], [], []) =
     Inr ([''Atlantic Star'', ''Mar Azul'', ''Atlantic Star''],
          [''John Doe'', ''Luis Gil'', ''John Doe''], [''Ana Paz'', ''Ana Paz''])"
    by code_simp
  have o: "owner_created (fst (owner_backend (server (init 0)) owner_request)) =
     Some [(''ID'', JInt 1), (''Name'', JStr ''Unknown Owner'')]"
    by code_simp
  have m: "post ''/vessels'' (vessel_data ''Mar Azul'' ''Boat'' (JInt 1)) \<in>
     set (sent_since (init 0) (snd (setup_base_entities owner_backend remdups (Inr boot_rows) (init 0))))"
    by code_simp
  have e: "req_endpoint (post ''/vessels'' (vessel_data ''Mar Azul'' ''Boat'' (JInt 1))) = ''/vessels''"
    "req_data (post ''/vessels'' (vessel_data ''Mar Azul'' ''Boat'' (JInt 1))) =
       Some (vessel_data ''Mar Azul'' ''Boat'' (JInt 1))"
    by (simp_all add: post_def)
  have t: "truthy (dict_get [(''ID'', JInt 5), (''id'', JInt 6)] ''id'')"
    "\<not> truthy (dict_get [(''id'', JInt 4)] ''ID'')"
    "\<not> truthy (dict_get [(''ID'', JInt 42)] ''id'')"
    "\<not> truthy (dict_get [(''id'', JInt 9)] ''ID'')"
    "truthy (dict_get [(''id'', JInt 9)] ''id'')"
    by (simp_all add: dict_get_def)
  note c1 = identifier_casings [of "[(''id'', JInt 4)]" "init 0" ex_md "[(''id'', JInt 3)]"
      "[(''ID'', JInt 5), (''id'', JInt 6)]" 50 "JInt 42" boot_rows
      "[''Atlantic Star'', ''Mar Azul'', ''Atlantic Star'']" "[''John Doe'', ''Luis Gil'', ''John Doe'']"
      "[''Ana Paz'', ''Ana Paz'']" owner_backend "[(''ID'', JInt 1), (''Name'', JStr ''Unknown Owner'')]" remdups]
  note c2 = identifier_casings [of "[(''ID'', JInt 42)]" "init (0::nat)" ex_md "[(''id'', JInt 3)]"
      "[(''ID'', JInt 5), (''id'', JInt 6)]" 50 "JInt 42" boot_rows "[]" "[]" "[]" owner_backend "[]" remdups]
  note c3 = identifier_casings [of "[(''id'', JInt 9)]" "init (0::nat)" ex_md "[(''id'', JInt 3)]"
      "[(''ID'', JInt 5), (''id'', JInt 6)]" 50 "JInt 42" boot_rows "[]" "[]" "[]" owner_backend "[]" remdups]
  have 1: "entity_id [(''id'', JInt 4)] = JInt 4" using c1 t by (simp add: dict_get_def)
  have 2: "compliance_id_of (JObj [(''ID'', JInt 42)]) = Inr (JInt 42)" using c2 t by (simp add: dict_get_def)
  have 3: "signer_id (Some [(''id'', JInt 9)]) = [JInt 9]" using c3 t by (simp add: dict_get_def)
  have 4: "dict_get (waste_data ex_md [(''id'', JInt 3)] [(''ID'', JInt 5), (''id'', JInt 6)] 50 (JInt 42))
     ''wasteTypeId'' = JInt 6" using c1 by (simp add: dict_get_def)
  have 5: "dict_get (vessel_data ''Mar Azul'' ''Boat'' (JInt 1)) ''ownerId'' =
     entity_id [(''ID'', JInt 1), (''Name'', JStr ''Unknown Owner'')]"
    using c1 ue o m e by auto
  show ?thesis using 1 2 3 4 5 ue o m by simp
qed

text \<open>
  Claim C1 as stated fails for waste types: a cached waste type whose identifier 5 is under
  \<^verbatim>\<open>ID\<close> is sent with \<^verbatim>\<open>wasteTypeId\<close> null.
\<close>

theorem waste_type_upper_id_counterexample:
  "get_waste_type_by_name upper_id_self ''Aceite'' =
     Some [(''ID'', JInt 5), (''typeName'', JStr ''Aceite'')] \<and>
   dict_get [(''ID'', JInt 5), (''typeName'', JStr ''Aceite'')] ''ID'' = JInt 5 \<and>
   sent_since upper_id_self (process_row ex_backend ''NOW'' ex_row upper_id_self) =
     [post ''/compliances''
        [(''vesselId'', JInt 3), (''inspectionDate'', JStr ''2024-01-10T00:00:00+00:00''),
         (''observations'', JStr ''Digitized from physical manifest ID: 7''),
         (''systemUserId'', JInt 1), (''signersIds'', JArr [JInt 9])],
      post ''/wastes''
        [(''vesselId'', JInt 3), (''wasteTypeId'', JNull), (''quantityGenerated'', JFloat 50),
         (''generationDate'', JStr ''2024-01-10T00:00:00+00:00''), (''complianceId'', JInt 42)]]"
  by code_simp

end
